theory Spec2Isabelle
  imports Complex_Main "HOL-Library.Sublist" "HOL-Library.Word"
begin

section \<open>JavaScript values and strings\<close>

text \<open>
  A JavaScript string is a sequence of 16-bit code units; \<open>js\<close> writes a string
  literal of the source as such a sequence.  \<open>s.includes(k)\<close> is "k is a contiguous
  part of s", \<open>s.length\<close> counts code units.  Tweet texts, interests, keywords and
  reasons are such sequences.  Error messages, status texts, URLs and log fields,
  which the code passes on or searches for literals of the source, are written as
  \<^typ>\<open>string\<close>.  JavaScript numbers are modelled as reals.
\<close>

type_synonym code_unit = "16 word"

type_synonym jstring = "code_unit list"

definition js :: "string \<Rightarrow> jstring" where
  "js s = map of_char s"

datatype js_value =
    JNull
  | JUndefined
  | JString jstring
  | JNumber real
  | JBoolean bool
  | JObject

datatype js_error = TypeError string

text \<open>
  What the source takes from the JavaScript engine, and the model takes as a
  parameter: \<open>String.prototype.toLowerCase\<close>, which follows the case mapping of
  the Unicode character database, and \<open>Math.round(x * 100)\<close> as double
  arithmetic computes it.  Every definition below that uses one of them has the
  engine as its first argument, and every theorem holds for every engine.
\<close>

record platform =
  toLowerCase :: "jstring \<Rightarrow> jstring"
  round_percent :: "real \<Rightarrow> nat"

definition str_includes :: "'a list \<Rightarrow> 'a list \<Rightarrow> bool" where
  "str_includes s k = sublist k s"

definition startsWith :: "'a list \<Rightarrow> 'a list \<Rightarrow> bool" where
  "startsWith s p = prefix p s"

text \<open>
  The class \<open>\s\<close> of a regular expression: the white space and line terminator
  code units of ECMAScript (tab, line feed, vertical tab, form feed, carriage
  return, space, no-break space, U+1680, U+2000 to U+200A, U+2028, U+2029, U+202F,
  U+205F, U+3000 and U+FEFF).
\<close>

definition isSpace :: "code_unit \<Rightarrow> bool" where
  "isSpace c =
     (c \<in> set [0x09, 0x0A, 0x0B, 0x0C, 0x0D, 0x20, 0xA0, 0x1680, 0x2028, 0x2029, 0x202F,
                0x205F, 0x3000, 0xFEFF]
      \<or> (0x2000 \<le> c \<and> c \<le> 0x200A))"

text \<open>
  \<open>s.split(/\s+/)\<close>: the flag says whether the scan is inside a run of white space;
  the piece before a run is emitted when the run starts, so leading and trailing
  white space give empty first and last pieces, and the empty string gives one
  empty piece.
\<close>

fun split_scan :: "bool \<Rightarrow> jstring \<Rightarrow> jstring \<Rightarrow> jstring list" where
  "split_scan in_ws cur [] = [cur]"
| "split_scan in_ws cur (c # cs) =
     (if isSpace c
      then (if in_ws then split_scan True [] cs else cur # split_scan True [] cs)
      else split_scan False (cur @ [c]) cs)"

definition split_ws :: "jstring \<Rightarrow> jstring list" where
  "split_ws s = split_scan False [] s"

text \<open>
  A regular expression with the flag \<open>i\<close> and without the flag \<open>u\<close> compares code
  units after the canonicalisation of ECMAScript, which never maps a code unit
  from 128 on to one below 128: a letter \<open>a\<close>..\<open>z\<close> of a pattern matches its own two
  forms only, and a space matches a space.  \<open>ascii_fold\<close> is that comparison key for
  the code units a pattern of such letters can match.
\<close>

definition ascii_fold :: "code_unit \<Rightarrow> code_unit" where
  "ascii_fold c = (if 0x41 \<le> c \<and> c \<le> 0x5A then c + 0x20 else c)"

definition digit_char :: "nat \<Rightarrow> char" where
  "digit_char d = ''0123456789'' ! d"

function show_nat :: "nat \<Rightarrow> string" where
  "show_nat n = (if n < 10 then [digit_char n] else show_nat (n div 10) @ [digit_char (n mod 10)])"
  by pat_completeness auto
termination
  by (relation "measure id") auto

declare show_nat.simps [simp del]

record classification =
  isUninteresting :: bool
  reason :: jstring

section \<open>Tier 2: the fallback classifier (background script)\<close>

definition fallback_spamKeywords :: "jstring list" where
  "fallback_spamKeywords = map js
     [''sponsored'', ''promoted'', ''advertisement'', ''buy now'', ''click here'',
      ''limited time'', ''act now'', ''dm me'', ''link in bio'', ''follow back'',
      ''get rich'', ''make money'', ''work from home'', ''crypto opportunity'',
      ''investment opportunity'', ''f4f'', ''l4l'', ''check my bio'', ''promo code'']"

definition qualityIndicators :: "jstring list" where
  "qualityIndicators = map js
     [''research'', ''study'', ''analysis'', ''breakthrough'', ''discovered'', ''published'',
      ''scientists'', ''university'', ''paper'', ''findings'', ''data shows'']"

definition bait_prefixes :: "jstring list" where
  "bait_prefixes = map js [''rt if'', ''retweet if'', ''like if'', ''agree or disagree'']"

text \<open>
  The test \<open>/^(rt if|retweet if|like if|agree or disagree)/i\<close> on the original text:
  one of the alternatives is a prefix, its letters compared without case.
\<close>

definition bait_test :: "jstring \<Rightarrow> bool" where
  "bait_test text = list_ex (startsWith (map ascii_fold text)) bait_prefixes"

text \<open>What one pair (word of the text, word of the interest) adds to \<open>matchCount\<close>.\<close>

definition pair_matches :: "jstring \<Rightarrow> jstring \<Rightarrow> nat" where
  "pair_matches word iWord =
     (if (length word \<ge> 3 \<and> length iWord \<ge> 3) \<and> (str_includes word iWord \<or> str_includes iWord word)
      then 1 else 0)
   + (if word = js ''ai'' \<and> (iWord = js ''artificial'' \<or> iWord = js ''intelligence'') then 1 else 0)
   + (if word = js ''ml'' \<and> (iWord = js ''machine'' \<or> iWord = js ''learning'') then 1 else 0)
   + (if word = js ''gpu'' \<and> iWord = js ''graphics'' then 1 else 0)
   + (if word = js ''cpu'' \<and> iWord = js ''processor'' then 1 else 0)"

definition matchCount :: "jstring list \<Rightarrow> jstring list \<Rightarrow> nat" where
  "matchCount words interestWords =
     sum_list (map (\<lambda>word. sum_list (map (pair_matches word) interestWords)) words)"

text \<open>
  \<open>matchCount / interestWords.length\<close>, as the exact quotient.  The scores are only
  compared with each other and with 0.5, and double division keeps the order of
  quotients of counts below \<open>2\<^sup>2\<^sup>6\<close>; the percentage in the reason is the engine's
  \<open>round_percent\<close> of the best score.
\<close>

definition interest_score :: "platform \<Rightarrow> jstring \<Rightarrow> jstring \<Rightarrow> real" where
  "interest_score P lowerText interest =
     (let interestWords = split_ws (toLowerCase P interest)
      in real (matchCount (split_ws lowerText) interestWords) / real (length interestWords))"

text \<open>
  The loop over the interests.  It returns at once (\<open>Inl\<close>) at the first interest
  whose lower-cased form occurs in the lower-cased text; otherwise it carries
  \<open>(bestMatch, bestScore)\<close> along and ends with them (\<open>Inr\<close>).
\<close>

fun interest_loop ::
  "platform \<Rightarrow> jstring \<Rightarrow> jstring list \<Rightarrow> jstring option \<times> real
     \<Rightarrow> classification + jstring option \<times> real" where
  "interest_loop P lowerText [] best = Inr best"
| "interest_loop P lowerText (interest # rest) (bestMatch, bestScore) =
     (if str_includes lowerText (toLowerCase P interest)
      then Inl \<lparr>isUninteresting = False, reason = js ''Direct match: '' @ interest\<rparr>
      else
        (let score = interest_score P lowerText interest
         in if score > bestScore
            then interest_loop P lowerText rest (Some interest, score)
            else interest_loop P lowerText rest (bestMatch, bestScore)))"

definition show_match :: "jstring option \<Rightarrow> jstring" where
  "show_match m = (case m of None \<Rightarrow> js ''null'' | Some i \<Rightarrow> i)"

definition fallbackClassification :: "platform \<Rightarrow> js_value \<Rightarrow> jstring list \<Rightarrow> classification" where
  "fallbackClassification P text interests =
     (case text of
        JString t \<Rightarrow>
          (let lowerText = toLowerCase P t
           in case find (str_includes lowerText) fallback_spamKeywords of
                Some keyword \<Rightarrow>
                  \<lparr>isUninteresting = True, reason = js ''Spam keyword: '' @ keyword\<rparr>
              | None \<Rightarrow>
                  (case interest_loop P lowerText interests (None, 0) of
                     Inl direct \<Rightarrow> direct
                   | Inr (bestMatch, bestScore) \<Rightarrow>
                       if bait_test t
                       then \<lparr>isUninteresting = True, reason = js ''Engagement bait pattern''\<rparr>
                       else
                         (case find (str_includes lowerText) qualityIndicators of
                            Some indicator \<Rightarrow>
                              \<lparr>isUninteresting = False,
                               reason = js ''Quality content: '' @ indicator\<rparr>
                          | None \<Rightarrow>
                              if bestScore > 1 / 2
                              then \<lparr>isUninteresting = False,
                                    reason = js ''Semantic match: '' @ show_match bestMatch
                                      @ js '' ('' @ js (show_nat (round_percent P bestScore))
                                      @ js ''%)''\<rparr>
                              else \<lparr>isUninteresting = True,
                                    reason =
                                      js ''No matching interests (using fallback classification)''\<rparr>)))
      | _ \<Rightarrow> \<lparr>isUninteresting = True, reason = js ''Invalid text input''\<rparr>)"

text \<open>
  The precedence order as the specification words it: six rules, the first one that
  applies decides.  The weak overlap score of an interest is \<^const>\<open>interest_score\<close>;
  the best score is the largest one (at least 0), the best interest the first one
  that reaches it.
\<close>

definition tier2_spec :: "platform \<Rightarrow> jstring \<Rightarrow> jstring list \<Rightarrow> classification" where
  "tier2_spec P text interests =
     (let lowerText = toLowerCase P text
      in case find (\<lambda>keyword. str_includes lowerText keyword) fallback_spamKeywords of
           Some keyword \<Rightarrow> \<lparr>isUninteresting = True, reason = js ''Spam keyword: '' @ keyword\<rparr>
         | None \<Rightarrow>
        (case find (\<lambda>interest. str_includes lowerText (toLowerCase P interest)) interests of
           Some interest \<Rightarrow> \<lparr>isUninteresting = False, reason = js ''Direct match: '' @ interest\<rparr>
         | None \<Rightarrow>
        if bait_test text
        then \<lparr>isUninteresting = True, reason = js ''Engagement bait pattern''\<rparr>
        else
        (case find (\<lambda>indicator. str_includes lowerText indicator) qualityIndicators of
           Some indicator \<Rightarrow> \<lparr>isUninteresting = False, reason = js ''Quality content: '' @ indicator\<rparr>
         | None \<Rightarrow>
        (let best = Max (set (0 # map (interest_score P lowerText) interests))
         in if best > 1 / 2
            then \<lparr>isUninteresting = False,
                  reason = js ''Semantic match: ''
                    @ show_match (find (\<lambda>interest. interest_score P lowerText interest = best) interests)
                    @ js '' ('' @ js (show_nat (round_percent P best)) @ js ''%)''\<rparr>
            else \<lparr>isUninteresting = True,
                  reason = js ''No matching interests (using fallback classification)''\<rparr>))))"

section \<open>Tier 1: the provider-backed classifier (offscreen document)\<close>

text \<open>
  The module state of \<open>offscreen.js\<close>.  The provider \<open>classifier\<close> is absent until the
  model has been loaded; present, it maps a text to its embedding
  (\<open>classifier(t, {pooling: 'mean', normalize: true})[0]\<close>).
\<close>

record offscreen_state =
  classifier :: "(jstring \<Rightarrow> real list) option"
  interestEmbeddings :: "(jstring \<times> real list) list"
  spamList :: "jstring list"
  threshold :: real

definition offscreen_init :: offscreen_state where
  "offscreen_init =
     \<lparr>classifier = None, interestEmbeddings = [], spamList = [], threshold = 35 / 100\<rparr>"

text \<open>
  \<open>cosine\<close>: the loop runs over the indices of \<open>a\<close> and accumulates \<open>dot\<close>, \<open>na\<close>, \<open>nb\<close>.
  Reading \<open>b[i]\<close> past the end of \<open>b\<close> gives \<open>undefined\<close>, which turns the sums and
  the result into \<open>NaN\<close>; so does the division \<open>0 / 0\<close> when a norm is zero.
  \<open>NaN\<close> is the value \<open>None\<close>.
\<close>

fun cosine_loop :: "real list \<Rightarrow> real list \<Rightarrow> real \<times> real \<times> real \<Rightarrow> (real \<times> real \<times> real) option" where
  "cosine_loop [] b acc = Some acc"
| "cosine_loop (x # a) [] acc = None"
| "cosine_loop (x # a) (y # b) (dot, na, nb) = cosine_loop a b (dot + x * y, na + x\<^sup>2, nb + y\<^sup>2)"

definition cosine :: "real list \<Rightarrow> real list \<Rightarrow> real option" where
  "cosine a b =
     (case cosine_loop a b (0, 0, 0) of
        None \<Rightarrow> None
      | Some (dot, na, nb) \<Rightarrow>
          if sqrt na * sqrt nb = 0 then None else Some (dot / (sqrt na * sqrt nb)))"

text \<open>\<open>x.toFixed(2)\<close> for a number below \<open>1e21\<close> in size: sign, then the magnitude rounded to hundredths.\<close>

definition toFixed2 :: "real \<Rightarrow> string" where
  "toFixed2 x =
     (let n = nat \<lfloor>\<bar>x\<bar> * 100 + 1 / 2\<rfloor>
      in (if x < 0 then ''-'' else []) @ show_nat (n div 100) @ ''.''
           @ [digit_char ((n div 10) mod 10), digit_char (n mod 10)])"

text \<open>One round of the loop \<open>if (sim > maxSim) maxSim = sim\<close>; a \<open>NaN\<close> never compares greater.\<close>

definition maxSim_step :: "real list \<Rightarrow> jstring \<times> real list \<Rightarrow> real \<Rightarrow> real" where
  "maxSim_step emb i maxSim =
     (case cosine emb (snd i) of
        Some sim \<Rightarrow> if sim > maxSim then sim else maxSim
      | None \<Rightarrow> maxSim)"

text \<open>
  \<open>classify(tweet)\<close>.  The result carries the list of texts the provider was called
  on.  \<open>tweet.toLowerCase()\<close> throws a \<open>TypeError\<close> when \<open>tweet\<close> is not a string.
\<close>

definition classify ::
  "platform \<Rightarrow> offscreen_state \<Rightarrow> js_value \<Rightarrow> js_error + classification \<times> jstring list" where
  "classify P st tweet =
     (case tweet of
        JString t \<Rightarrow>
          (let lower = toLowerCase P t
           in if list_ex (\<lambda>k. str_includes lower k) (spamList st)
              then Inr (\<lparr>isUninteresting = True, reason = js ''Spam''\<rparr>, [])
              else if interestEmbeddings st = []
              then Inr (\<lparr>isUninteresting = False, reason = js ''No interests''\<rparr>, [])
              else
                (case classifier st of
                   None \<Rightarrow> Inl (TypeError ''classifier is not a function'')
                 | Some model \<Rightarrow>
                     (let emb = model t;
                          maxSim = fold (maxSim_step emb) (interestEmbeddings st) (- 1)
                      in Inr (\<lparr>isUninteresting = (maxSim < threshold st),
                                reason = js (''sim='' @ toFixed2 maxSim)\<rparr>, [t]))))
      | JNull \<Rightarrow> Inl (TypeError ''Cannot read properties of null (reading toLowerCase)'')
      | JUndefined \<Rightarrow> Inl (TypeError ''Cannot read properties of undefined (reading toLowerCase)'')
      | _ \<Rightarrow> Inl (TypeError ''tweet.toLowerCase is not a function''))"

text \<open>The \<open>SET_INTERESTS\<close> message; an absent field is \<open>None\<close>.\<close>

record set_interests_msg =
  msg_interests :: "jstring list option"
  msg_spamKeywords :: "jstring list option"
  msg_threshold :: "real option"

definition recalcEmbeddings :: "offscreen_state \<Rightarrow> jstring list \<Rightarrow> offscreen_state" where
  "recalcEmbeddings st interests =
     (case classifier st of
        None \<Rightarrow> st
      | Some model \<Rightarrow> st\<lparr>interestEmbeddings := map (\<lambda>t. (t, model t)) interests\<rparr>)"

definition on_SET_INTERESTS :: "offscreen_state \<Rightarrow> set_interests_msg \<Rightarrow> offscreen_state" where
  "on_SET_INTERESTS st msg =
     (let st1 = recalcEmbeddings st (case msg_interests msg of None \<Rightarrow> [] | Some i \<Rightarrow> i)
      in st1\<lparr>spamList := (case msg_spamKeywords msg of None \<Rightarrow> [] | Some k \<Rightarrow> k),
              threshold := (case msg_threshold msg of None \<Rightarrow> 35 / 100 | Some t \<Rightarrow> t)\<rparr>)"

text \<open>\<open>ensureModel\<close> once \<open>getMiniLMPipeline()\<close> has resolved with the provider.\<close>

definition ensureModel_resolved :: "(jstring \<Rightarrow> real list) \<Rightarrow> offscreen_state \<Rightarrow> offscreen_state" where
  "ensureModel_resolved pipe st =
     (case classifier st of Some _ \<Rightarrow> st | None \<Rightarrow> st\<lparr>classifier := Some pipe\<rparr>)"

text \<open>The similarity of two vectors as the specification writes it.\<close>

definition dot_product :: "real list \<Rightarrow> real list \<Rightarrow> real" where
  "dot_product a b = sum_list (map (\<lambda>(x, y). x * y) (zip a b))"

definition vec_norm :: "real list \<Rightarrow> real" where
  "vec_norm a = sqrt (sum_list (map (\<lambda>x. x\<^sup>2) a))"

definition cosine_spec :: "real list \<Rightarrow> real list \<Rightarrow> real" where
  "cosine_spec a b = dot_product a b / (vec_norm a * vec_norm b)"

section \<open>The decision log (background script)\<close>

record log_entry =
  ts :: nat
  entry_id :: string
  decision :: string
  entry_reason :: string
  entry_text :: string

text \<open>
  The arguments of \<open>logLine\<close> as its callers pass them (strings; the empty string is
  the falsy one), and what the two storage calls of one \<open>logLine\<close> run do.
\<close>

record logLine_args =
  arg_id :: string
  arg_text :: string
  arg_decision :: string
  arg_reason :: string

record storage_env =
  now :: nat
  get_ok :: bool
  set_ok :: bool

text \<open>
  The stored value under the key \<open>curationLog\<close>: \<open>None\<close> when the key is absent or
  does not hold an array, in which case \<open>logLine\<close> starts from the empty log.
\<close>

type_synonym log_store = "log_entry list option"

definition stored_log :: "log_store \<Rightarrow> log_entry list" where
  "stored_log store = (case store of None \<Rightarrow> [] | Some l \<Rightarrow> l)"

definition logLine :: "storage_env \<Rightarrow> logLine_args \<Rightarrow> log_store \<Rightarrow> log_store" where
  "logLine env a store =
     (if arg_id a = [] \<or> arg_decision a = [] \<or> arg_reason a = [] then store
      else if \<not> get_ok env then store
      else
        (let curationLog = stored_log store;
             pushed = curationLog @
               [\<lparr>ts = now env, entry_id = arg_id a, decision = arg_decision a,
                 entry_reason = arg_reason a, entry_text = arg_text a\<rparr>];
             kept = (if length pushed > 2000 then tl pushed else pushed)
         in if set_ok env then Some kept else store))"

text \<open>A sequence of \<open>logLine\<close> calls, one after the other.\<close>

definition logLines :: "(storage_env \<times> logLine_args) list \<Rightarrow> log_store \<Rightarrow> log_store" where
  "logLines calls store = fold (\<lambda>(env, a). logLine env a) calls store"

definition entry_of :: "storage_env \<times> logLine_args \<Rightarrow> log_entry" where
  "entry_of c =
     \<lparr>ts = now (fst c), entry_id = arg_id (snd c), decision = arg_decision (snd c),
      entry_reason = arg_reason (snd c), entry_text = arg_text (snd c)\<rparr>"

text \<open>A call that appends: all three checked arguments present, both storage calls succeed.\<close>

definition appending :: "storage_env \<times> logLine_args \<Rightarrow> bool" where
  "appending c =
     (arg_id (snd c) \<noteq> [] \<and> arg_decision (snd c) \<noteq> [] \<and> arg_reason (snd c) \<noteq> []
      \<and> get_ok (fst c) \<and> set_ok (fst c))"

section \<open>Messages between the extension's contexts\<close>

datatype ai_status = Status_stopped | Status_loading | Status_ready

datatype runtime_msg =
    AI_LOAD_PROGRESS string nat
  | AI_READY
  | AI_LOAD_FAILED string
  | SET_INTERESTS set_interests_msg
  | STATUS_UPDATE bool bool ai_status
  | PRELOAD_MODEL
  | OFFSCREEN_READY

section \<open>The model manager\<close>

text \<open>
  \<open>fetch\<close> either resolves with a response (status, status text) or rejects with an
  error message (no connection, or the abort of \<open>AbortSignal.timeout\<close>).
\<close>

datatype fetch_result = Response nat string | FetchRejects string

text \<open>What \<open>retryFetch\<close> does to the outside: a fetch under a timeout (ms), a sleep (ms).\<close>

datatype io_event = Fetch string nat | Sleep nat

definition response_ok :: "nat \<Rightarrow> bool" where
  "response_ok status = (200 \<le> status \<and> status \<le> 299)"

text \<open>The message of the error an attempt ends with, \<open>None\<close> when it returns the response.\<close>

definition attempt_error :: "fetch_result \<Rightarrow> string option" where
  "attempt_error r =
     (case r of
        Response status statusText \<Rightarrow>
          if response_ok status then None
          else Some (''HTTP '' @ show_nat status @ '': '' @ statusText)
      | FetchRejects m \<Rightarrow> Some m)"

text \<open>
  The loop of \<open>retryFetch\<close> from attempt number \<open>attempt\<close> on.  \<open>net n\<close> is what the
  \<open>n\<close>-th fetch does.  The result is the thrown error message (\<open>Inl\<close>) or the returned
  value (\<open>Inr\<close>; \<open>None\<close> is \<open>undefined\<close>, when the loop body never runs), with the
  events in order.
\<close>

function retryFetch_from ::
  "(nat \<Rightarrow> fetch_result) \<Rightarrow> string \<Rightarrow> nat \<Rightarrow> nat \<Rightarrow> (string + fetch_result option) \<times> io_event list" where
  "retryFetch_from net url maxRetries attempt =
     (if attempt \<le> maxRetries
      then
        (case attempt_error (net attempt) of
           None \<Rightarrow> (Inr (Some (net attempt)), [Fetch url 30000])
         | Some m \<Rightarrow>
             if attempt = maxRetries
             then (Inl (''Failed to fetch after '' @ show_nat maxRetries @ '' attempts: '' @ m),
                   [Fetch url 30000])
             else
               (let delay = 2 ^ (attempt - 1) * 1000;
                    later = retryFetch_from net url maxRetries (attempt + 1)
                in (fst later, Fetch url 30000 # Sleep delay # snd later)))
      else (Inr None, []))"
  by pat_completeness auto
termination
  by (relation "measure (\<lambda>(net, url, maxRetries, attempt). maxRetries + 1 - attempt)") auto

declare retryFetch_from.simps [simp del]

definition retryFetch :: "(nat \<Rightarrow> fetch_result) \<Rightarrow> string \<Rightarrow> (string + fetch_result option) \<times> io_event list" where
  "retryFetch net url = retryFetch_from net url 3 1"

definition config_url :: string where
  "config_url = ''https://huggingface.co/Xenova/all-MiniLM-L6-v2/resolve/main/config.json''"

text \<open>
  The module state of \<open>modelManager.js\<close>.  The memoized promise \<open>_loadPromise\<close> is named
  by the number of the load attempt it belongs to; \<open>attempts\<close> counts the load attempts
  started, \<open>sent\<close> lists the messages sent so far.
\<close>

record manager_state =
  modelReady :: bool
  loadPromise :: "nat option"
  attempts :: nat
  sent :: "runtime_msg list"

definition manager_init :: manager_state where
  "manager_init = \<lparr>modelReady = False, loadPromise = None, attempts = 0, sent = []\<rparr>"

text \<open>
  A call of \<open>getMiniLMPipeline()\<close>.  With a memoized promise the call returns it.
  Otherwise the body of a new attempt runs inside the call up to its first
  \<open>await\<close>, the connectivity probe; before it stand two calls of
  \<open>chrome.runtime.sendMessage\<close>.  \<open>sendMessage_throws\<close> says what these calls do
  during this call: \<open>None\<close> when they return, \<open>Some m\<close> when they throw an error
  with message \<open>m\<close>.  When the first one throws, the \<open>catch\<close> block runs inside
  the call: its own \<open>sendMessage\<close> throws as well, so nothing is sent and the
  block is left before \<open>_loadPromise = null\<close>; the promise of the attempt is
  rejected, and the assignment \<open>_loadPromise = (async () => ...)()\<close> then stores
  it.  (Had the \<open>catch\<close> block reached \<open>_loadPromise = null\<close>, the assignment
  after it would overwrite it all the same.)

  The result is the promise returned, named by the number of its attempt, with
  the error it was rejected with inside this call if any, and the state after
  the call.
\<close>

definition getMiniLMPipeline ::
  "string option \<Rightarrow> manager_state \<Rightarrow> (nat \<times> string option) \<times> manager_state" where
  "getMiniLMPipeline sendMessage_throws s =
     (case loadPromise s of
        Some p \<Rightarrow> ((p, None), s)
      | None \<Rightarrow>
          (case sendMessage_throws of
             None \<Rightarrow>
               ((attempts s, None),
                s\<lparr>loadPromise := Some (attempts s),
                  attempts := attempts s + 1,
                  sent := sent s @ [AI_LOAD_PROGRESS ''Initializing...'' 5,
                                    AI_LOAD_PROGRESS ''Testing network...'' 10]\<rparr>)
           | Some m \<Rightarrow>
               ((attempts s, Some m),
                s\<lparr>loadPromise := Some (attempts s), attempts := attempts s + 1\<rparr>)))"

text \<open>
  What the outside does during one load attempt after the first \<open>await\<close>.  The
  pipeline construction resolves, rejects with an error that has a message,
  rejects with a value that has no \<open>message\<close> string, or is overtaken by the
  timeout of two minutes.  The calls of \<open>chrome.runtime.sendMessage\<close> in this part
  are taken to return.
\<close>

datatype pipeline_outcome =
    PipelineResolves
  | PipelineRejects string
  | PipelineRejectsWithoutMessage
  | PipelineTimesOut

record load_env =
  probe :: "nat \<Rightarrow> fetch_result"
  import_error :: "string option"
  pipeline :: pipeline_outcome

text \<open>The \<open>catch\<close> block of the attempt: the message sent for an error message.\<close>

definition failure_message :: "string \<Rightarrow> string" where
  "failure_message m =
     (if str_includes m ''fetch'' then ''Network error: Check internet connection and try again''
      else if str_includes m ''timeout'' then ''Download timeout: Model download took too long''
      else if str_includes m ''HTTP'' then ''Server error: '' @ m
      else m)"

definition attempt_fails :: "string \<Rightarrow> manager_state \<Rightarrow> manager_state" where
  "attempt_fails m s =
     s\<lparr>sent := sent s @ [AI_LOAD_FAILED (failure_message m)], loadPromise := None\<rparr>"

text \<open>
  The rest of a load attempt, from the connectivity probe to the end: the error the
  promise rejects with (\<open>Inl\<close>) or its fulfilment (\<open>Inr\<close>), and the state then.  For
  a rejection value without a message, \<open>err.message.includes\<close> throws a \<open>TypeError\<close>
  inside the \<open>catch\<close> block, which is left before anything is sent or reset.
\<close>

definition attempt_settles :: "load_env \<Rightarrow> manager_state \<Rightarrow> (string + unit) \<times> manager_state" where
  "attempt_settles env s =
     (case fst (retryFetch (probe env) config_url) of
        Inl networkError \<Rightarrow>
          (Inl (''Network connectivity issue: '' @ networkError),
           attempt_fails (''Network connectivity issue: '' @ networkError) s)
      | Inr _ \<Rightarrow>
          (let s1 = s\<lparr>sent := sent s @ [AI_LOAD_PROGRESS ''Loading AI library...'' 15]\<rparr>
           in case import_error env of
                Some m \<Rightarrow> (Inl m, attempt_fails m s1)
              | None \<Rightarrow>
                  (let s2 = s1\<lparr>sent := sent s1 @ [AI_LOAD_PROGRESS ''Downloading model...'' 20]\<rparr>
                   in case pipeline env of
                        PipelineRejects m \<Rightarrow> (Inl m, attempt_fails m s2)
                      | PipelineRejectsWithoutMessage \<Rightarrow>
                          (Inl ''Cannot read properties of undefined (reading includes)'', s2)
                      | PipelineTimesOut \<Rightarrow>
                          (Inl ''Model download timeout (2 minutes)'',
                           attempt_fails ''Model download timeout (2 minutes)'' s2)
                      | PipelineResolves \<Rightarrow>
                          (Inr (),
                           s2\<lparr>sent := sent s2 @ [AI_LOAD_PROGRESS ''Model ready!'' 100, AI_READY],
                              modelReady := True\<rparr>))))"

section \<open>The orchestrator (background script)\<close>

datatype content_msg = START | STOP | MARK_TWEET string

datatype timer_action = RetryInitializeAI

text \<open>What the background script does to the outside, in order.\<close>

datatype effect =
    SendMessage runtime_msg
  | StorageSet_isRunning bool
  | StorageSet_aiStatus ai_status
  | AlarmCreate
  | AlarmClear
  | ForwardToContentScript content_msg
  | TabPing nat
  | ExecuteScript nat
  | CreateOffscreenDocument
  | SetTimeout nat timer_action
  | Wait nat

record bg_state =
  isRunning :: bool
  aiReady :: bool
  cachedInterests :: "jstring list"
  effects :: "effect list"

definition spamKeywords :: "jstring list" where
  "spamKeywords = map js [''promoted'', ''sponsored'', ''free crypto'', ''giveaway'']"

definition SIM_THRESHOLD :: real where
  "SIM_THRESHOLD = 35 / 100"

record tab =
  tab_id :: nat
  tab_url :: "string option"

text \<open>
  What the browser answers during one handler run: the active tab found by
  \<open>chrome.tabs.query\<close> (\<open>Inl\<close> when the query rejects), whether the content script
  answers \<open>PING\<close>, whether injecting it works, whether \<open>chrome.storage.local.set\<close>
  rejects, whether some context receives runtime messages, and how the set-up
  of the offscreen document goes.
\<close>

record bg_env =
  tabs_query :: "string + tab option"
  ping_ok :: bool
  inject_ok :: bool
  storage_set_error :: "string option"
  status_receiver :: bool
  offscreen_exists :: bool
  offscreen_setup_ok :: bool

record response =
  success :: bool
  error :: "string option"

definition emit :: "effect \<Rightarrow> bg_state \<Rightarrow> bg_state" where
  "emit e s = s\<lparr>effects := effects s @ [e]\<rparr>"

definition aiStatus_of :: "bg_state \<Rightarrow> ai_status" where
  "aiStatus_of s =
     (if aiReady s then Status_ready else if isRunning s then Status_loading else Status_stopped)"

text \<open>\<open>broadcastStatus\<close>: the status is stored only when the message found a receiver.\<close>

definition broadcastStatus :: "bg_env \<Rightarrow> bg_state \<Rightarrow> bg_state" where
  "broadcastStatus env s =
     (let s1 = emit (SendMessage (STATUS_UPDATE (isRunning s) (aiReady s) (aiStatus_of s))) s
      in if status_receiver env then emit (StorageSet_aiStatus (aiStatus_of s)) s1 else s1)"

text \<open>
  \<open>forwardToContentScript\<close> delivers a message to every feed tab and swallows every
  failure; the delivery as a whole is one effect.
\<close>

definition forwardToContentScript :: "content_msg \<Rightarrow> bg_state \<Rightarrow> bg_state" where
  "forwardToContentScript m s = emit (ForwardToContentScript m) s"

definition startContentScript :: "bg_state \<Rightarrow> bg_state" where
  "startContentScript s = forwardToContentScript START s"

text \<open>\<open>setupOffscreenDocument\<close>: whether it returns (or throws), and the state then.\<close>

definition setupOffscreenDocument :: "bg_env \<Rightarrow> bg_state \<Rightarrow> bool \<times> bg_state" where
  "setupOffscreenDocument env s =
     (if offscreen_exists env
      then (offscreen_setup_ok env, emit (SendMessage OFFSCREEN_READY) s)
      else (offscreen_setup_ok env, emit CreateOffscreenDocument s))"

definition initializeAI :: "bg_env \<Rightarrow> bg_state \<Rightarrow> bg_state" where
  "initializeAI env s =
     (let s1 = broadcastStatus env s;
          setup = setupOffscreenDocument env s1
      in if fst setup
         then broadcastStatus env (emit (SendMessage PRELOAD_MODEL) (emit (Wait 1000) (snd setup)))
         else broadcastStatus env (snd setup))"

definition eligible_tab :: "tab option \<Rightarrow> bool" where
  "eligible_tab t =
     (case t of
        None \<Rightarrow> False
      | Some tb \<Rightarrow>
          (case tab_url tb of
             None \<Rightarrow> False
           | Some url \<Rightarrow> url \<noteq> [] \<and> (str_includes url ''x.com'' \<or> str_includes url ''twitter.com'')))"

text \<open>
  The \<open>catch\<close> block of \<open>startCuration\<close>; \<open>Some m\<close> in the first component says that
  the promise of \<open>startCuration\<close> rejects with message \<open>m\<close>.
\<close>

definition start_failed :: "bg_env \<Rightarrow> bg_state \<Rightarrow> string option \<times> bg_state" where
  "start_failed env s =
     (let s1 = emit (StorageSet_isRunning False) (s\<lparr>isRunning := False\<rparr>)
      in case storage_set_error env of
           Some m \<Rightarrow> (Some m, s1)
         | None \<Rightarrow> (None, broadcastStatus env s1))"

definition startCuration :: "bg_env \<Rightarrow> bg_state \<Rightarrow> string option \<times> bg_state" where
  "startCuration env s =
     (if isRunning s then (None, s)
      else
        (case tabs_query env of
           Inl m \<Rightarrow> start_failed env s
         | Inr t \<Rightarrow>
             if \<not> eligible_tab t then (None, s)
             else
               (let tid = (case t of Some tb \<Rightarrow> tab_id tb | None \<Rightarrow> 0);
                    s1 = emit (TabPing tid) s
                in if \<not> ping_ok env \<and> \<not> inject_ok env then (None, emit (ExecuteScript tid) s1)
                   else
                     (let s2 = (if ping_ok env then s1
                                else emit (Wait 500) (emit (ExecuteScript tid) s1));
                          s3 = emit (StorageSet_isRunning True) (s2\<lparr>isRunning := True\<rparr>)
                      in case storage_set_error env of
                           Some m \<Rightarrow> start_failed env s3
                         | None \<Rightarrow>
                             (let s4 = emit AlarmCreate s3;
                                  s5 = (if aiReady s4 then startContentScript s4
                                        else initializeAI env s4)
                              in (None, broadcastStatus env s5))))))"

text \<open>The \<open>START_CURATION\<close> branch of the message listener: the response and the state.\<close>

definition on_START_CURATION :: "bg_env \<Rightarrow> bg_state \<Rightarrow> response \<times> bg_state" where
  "on_START_CURATION env s =
     (let r = startCuration env s
      in case fst r of
           Some m \<Rightarrow> (\<lparr>success = False, error = Some m\<rparr>, snd r)
         | None \<Rightarrow> (\<lparr>success = True, error = None\<rparr>, snd r))"

text \<open>The \<open>AI_READY\<close> branch.\<close>

definition on_AI_READY :: "bg_env \<Rightarrow> bg_state \<Rightarrow> response \<times> bg_state" where
  "on_AI_READY env s =
     (let s1 = s\<lparr>aiReady := True\<rparr>;
          s2 = emit (SendMessage (SET_INTERESTS
                 \<lparr>msg_interests = Some (cachedInterests s1),
                  msg_spamKeywords = Some spamKeywords,
                  msg_threshold = Some SIM_THRESHOLD\<rparr>)) s1;
          s3 = broadcastStatus env s2;
          s4 = (if isRunning s3 then startContentScript s3 else s3)
      in (\<lparr>success = True, error = None\<rparr>, s4))"

text \<open>
  The \<open>chrome.storage.onChanged\<close> listener for a change of the key \<open>interests\<close> in the
  local area; \<open>None\<close> is a missing new value.
\<close>

definition on_interests_changed :: "jstring list option \<Rightarrow> bg_state \<Rightarrow> bg_state" where
  "on_interests_changed newValue s =
     (let s1 = s\<lparr>cachedInterests := (case newValue of None \<Rightarrow> [] | Some i \<Rightarrow> i)\<rparr>
      in if aiReady s1
         then emit (SendMessage (SET_INTERESTS
                \<lparr>msg_interests = Some (cachedInterests s1),
                 msg_spamKeywords = None,
                 msg_threshold = None\<rparr>)) s1
         else s1)"

text \<open>
  The \<open>AI_LOAD_FAILED\<close> branch.  The payload is the string the model manager sends;
  \<open>None\<close> or the empty string is a falsy payload.
\<close>

definition isNetworkError :: "string \<Rightarrow> bool" where
  "isNetworkError errorMessage =
     (str_includes errorMessage ''Network'' \<or> str_includes errorMessage ''fetch''
      \<or> str_includes errorMessage ''timeout'' \<or> str_includes errorMessage ''connectivity'')"

definition on_AI_LOAD_FAILED :: "bg_env \<Rightarrow> string option \<Rightarrow> bg_state \<Rightarrow> response \<times> bg_state" where
  "on_AI_LOAD_FAILED env payload s =
     (let truthy = (case payload of None \<Rightarrow> False | Some p \<Rightarrow> p \<noteq> []);
          errorPayload = (if truthy then the payload else ''Unknown error'');
          s1 = s\<lparr>aiReady := False\<rparr>;
          s2 = emit (SendMessage (AI_LOAD_FAILED errorPayload)) s1;
          errorMessage = (if truthy then the payload else []);
          s3 = (if isNetworkError errorMessage \<and> isRunning s2
                then emit (SetTimeout 15000 RetryInitializeAI) s2
                else s2);
          s4 = broadcastStatus env s3
      in (\<lparr>success = True, error = None\<rparr>, s4))"

text \<open>The callback of the timer set by the \<open>AI_LOAD_FAILED\<close> branch.\<close>

definition on_retry_timer :: "bg_env \<Rightarrow> bg_state \<Rightarrow> bg_state" where
  "on_retry_timer env s =
     (if isRunning s \<and> \<not> aiReady s
      then initializeAI env (emit (SendMessage (AI_LOAD_PROGRESS ''Retrying download...'' 5)) s)
      else s)"

text \<open>
  The classification step of the \<open>EVALUATE_TWEET\<close> branch, which runs only while
  curation is running.  \<open>isModelReady\<close> is the flag of the model manager module as
  the background context sees it; \<open>classify_reply\<close> is what the \<open>CLASSIFY\<close> round
  trip gives, \<open>None\<close> when it throws or gives nothing.
\<close>

record evaluate_env =
  isModelReady :: bool
  classify_reply :: "classification option"

definition evaluate_classification ::
  "platform \<Rightarrow> evaluate_env \<Rightarrow> bg_state \<Rightarrow> js_value \<Rightarrow> classification option" where
  "evaluate_classification P ev s text =
     (if isRunning s
      then Some (case (if isModelReady ev then classify_reply ev else None) of
                   Some classificationResult \<Rightarrow> classificationResult
                 | None \<Rightarrow> fallbackClassification P text (cachedInterests s))
      else None)"

text \<open>Readers of the effect list.\<close>

definition effects_since :: "bg_state \<Rightarrow> bg_state \<Rightarrow> effect list" where
  "effects_since s s' = drop (length (effects s)) (effects s')"

fun is_timer :: "effect \<Rightarrow> bool" where
  "is_timer (SetTimeout d a) = True"
| "is_timer _ = False"

fun stops_curation :: "effect \<Rightarrow> bool" where
  "stops_curation AlarmClear = True"
| "stops_curation (ForwardToContentScript STOP) = True"
| "stops_curation (StorageSet_isRunning False) = True"
| "stops_curation _ = False"

text \<open>The offscreen document receiving, in order, the \<open>SET_INTERESTS\<close> messages among effects.\<close>

fun deliver :: "effect list \<Rightarrow> offscreen_state \<Rightarrow> offscreen_state" where
  "deliver [] st = st"
| "deliver (SendMessage (SET_INTERESTS m) # es) st = deliver es (on_SET_INTERESTS st m)"
| "deliver (e # es) st = deliver es st"

text \<open>The largest similarity between a text's embedding and the cached interest embeddings.\<close>

definition max_similarity :: "real list \<Rightarrow> (jstring \<times> real list) list \<Rightarrow> real" where
  "max_similarity emb es = Max (set (map (\<lambda>e. cosine_spec emb (snd e)) es))"

text \<open>
  A sample engine for concrete runs.  On strings of code units below 256 its
  \<open>toLowerCase\<close> is that of JavaScript: the letters \<open>A\<close>..\<open>Z\<close> and the capital
  letters of Latin-1 (U+00C0 to U+00DE without the multiplication sign) move up by
  32, every other code unit stays.  Its \<open>round_percent\<close> rounds the exact product to
  the nearest integer, halves upwards.
\<close>

definition lower_unit :: "code_unit \<Rightarrow> code_unit" where
  "lower_unit c =
     (if (0x41 \<le> c \<and> c \<le> 0x5A) \<or> (0xC0 \<le> c \<and> c \<le> 0xDE \<and> c \<noteq> 0xD7) then c + 0x20 else c)"

definition sample_engine :: platform where
  "sample_engine =
     \<lparr>toLowerCase = map lower_unit, round_percent = (\<lambda>x. nat \<lfloor>x * 100 + 1 / 2\<rfloor>)\<rparr>"

text \<open>
  An engine lower-cases Basic Latin as JavaScript does when, on a string of code
  units below 128, it moves \<open>A\<close>..\<open>Z\<close> up by 32 and leaves the rest.
\<close>

definition lowers_basic_latin :: "platform \<Rightarrow> bool" where
  "lowers_basic_latin P = (\<forall>s. list_all (\<lambda>c. c < 0x80) s \<longrightarrow> toLowerCase P s = map ascii_fold s)"

text \<open>
  The offscreen state after the background's \<open>AI_READY\<close> branch has sent its
  \<open>SET_INTERESTS\<close> message for the interests \<open>is\<close> to a document whose provider
  is not loaded.
\<close>

definition configured_unloaded :: "jstring list \<Rightarrow> offscreen_state" where
  "configured_unloaded is =
     on_SET_INTERESTS offscreen_init
       \<lparr>msg_interests = Some is, msg_spamKeywords = Some spamKeywords,
        msg_threshold = Some SIM_THRESHOLD\<rparr>"

text \<open>A small loaded state: a provider with two-dimensional embeddings and two interests.\<close>

definition toy_model :: "jstring \<Rightarrow> real list" where
  "toy_model t = (if str_includes (map lower_unit t) (js ''ai'') then [1, 0] else [0, 1])"

definition toy_loaded :: offscreen_state where
  "toy_loaded =
     on_SET_INTERESTS (ensureModel_resolved toy_model offscreen_init)
       \<lparr>msg_interests = Some [js ''ai'', js ''music''], msg_spamKeywords = Some spamKeywords,
        msg_threshold = Some SIM_THRESHOLD\<rparr>"

fun is_sleep :: "io_event \<Rightarrow> bool" where
  "is_sleep (Sleep d) = True"
| "is_sleep _ = False"

text \<open>Sample inputs: log calls that append, a network that is down, browser answers.\<close>

definition sample_call :: "nat \<Rightarrow> storage_env \<times> logLine_args" where
  "sample_call n =
     (\<lparr>now = n, get_ok = True, set_ok = True\<rparr>,
      \<lparr>arg_id = ''tweet-1'', arg_text = ''some text'', arg_decision = ''hide'',
       arg_reason = ''Spam keyword: promoted''\<rparr>)"

definition sample_calls :: "nat \<Rightarrow> (storage_env \<times> logLine_args) list" where
  "sample_calls n = map sample_call [0..<n]"

definition offline :: "nat \<Rightarrow> fetch_result" where
  "offline n = FetchRejects ''Failed to fetch''"

definition offline_env :: load_env where
  "offline_env = \<lparr>probe = offline, import_error = None, pipeline = PipelineResolves\<rparr>"

definition online :: "nat \<Rightarrow> fetch_result" where
  "online n = Response 200 ''OK''"

definition bare_rejection_env :: load_env where
  "bare_rejection_env =
     \<lparr>probe = online, import_error = None, pipeline = PipelineRejectsWithoutMessage\<rparr>"

definition idle_state :: bg_state where
  "idle_state = \<lparr>isRunning = False, aiReady = False, cachedInterests = [js ''ai''], effects = []\<rparr>"

definition running_state :: bg_state where
  "running_state = \<lparr>isRunning = True, aiReady = False, cachedInterests = [js ''ai''], effects = []\<rparr>"

definition feed_env :: bg_env where
  "feed_env =
     \<lparr>tabs_query = Inr (Some \<lparr>tab_id = 7, tab_url = Some ''https://x.com/home''\<rparr>),
      ping_ok = True, inject_ok = True, storage_set_error = None, status_receiver = True,
      offscreen_exists = False, offscreen_setup_ok = True\<rparr>"

definition other_site_env :: bg_env where
  "other_site_env =
     \<lparr>tabs_query = Inr (Some \<lparr>tab_id = 7, tab_url = Some ''https://example.org/''\<rparr>),
      ping_ok = True, inject_ok = True, storage_set_error = None, status_receiver = True,
      offscreen_exists = False, offscreen_setup_ok = True\<rparr>"

section \<open>Evaluation rules for strings\<close>

lemma str_includes_Nil [simp]: "str_includes [] k = (k = [])"
  by (simp add: str_includes_def)

lemma str_includes_Cons [simp]:
  "str_includes (c # cs) k = (prefix k (c # cs) \<or> str_includes cs k)"
  by (cases k) (simp_all add: str_includes_def sublist_Cons_right)

lemma str_includes_append_left: "str_includes a k \<Longrightarrow> str_includes (a @ b) k"
  by (auto simp: str_includes_def sublist_def) (metis append.assoc)

lemma str_includes_append_right: "str_includes b k \<Longrightarrow> str_includes (a @ b) k"
  by (auto simp: str_includes_def sublist_def) (metis append.assoc)

lemmas engine_simps = sample_engine_def lower_unit_def ascii_fold_def js_def

section \<open>The fallback classifier follows the precedence order\<close>

lemma fold_max_ge: "b \<le> fold max xs (b::real)"
  by (induction xs arbitrary: b) (auto intro: order_trans[OF max.cobounded2])

lemma interest_loop_direct:
  "find (\<lambda>i. str_includes lt (toLowerCase P i)) is = Some i \<Longrightarrow>
   interest_loop P lt is b = Inl \<lparr>isUninteresting = False, reason = js ''Direct match: '' @ i\<rparr>"
proof (induction "is" arbitrary: b)
  case Nil
  then show ?case by simp
next
  case (Cons j js)
  obtain bm bs where b: "b = (bm, bs)" by (cases b)
  show ?case using Cons by (auto simp del: str_includes_Cons simp: b Let_def split: if_splits)
qed

lemma interest_loop_scores:
  "find (\<lambda>i. str_includes lt (toLowerCase P i)) is = None \<Longrightarrow>
   interest_loop P lt is (bm, bs) =
     Inr (if fold max (map (interest_score P lt) is) bs > bs
          then find (\<lambda>i. interest_score P lt i = fold max (map (interest_score P lt) is) bs) is
          else bm,
          fold max (map (interest_score P lt) is) bs)"
proof (induction "is" arbitrary: bm bs)
  case Nil
  then show ?case by simp
next
  case (Cons j js)
  let ?s = "interest_score P lt j"
  from Cons.prems have nd: "\<not> str_includes lt (toLowerCase P j)"
    and rest: "find (\<lambda>i. str_includes lt (toLowerCase P i)) js = None"
    by (auto simp del: str_includes_Cons split: if_splits)
  show ?case
  proof (cases "?s > bs")
    case True
    let ?m = "fold max (map (interest_score P lt) js) ?s"
    have ge: "?m \<ge> ?s" by (rule fold_max_ge)
    have "interest_loop P lt (j # js) (bm, bs) = interest_loop P lt js (Some j, ?s)"
      using nd True by (simp add: Let_def)
    also have "\<dots> = Inr (if ?m > ?s then find (\<lambda>i. interest_score P lt i = ?m) js else Some j, ?m)"
      by (rule Cons.IH[OF rest])
    finally show ?thesis using True ge by (auto simp: max.absorb1)
  next
    case False
    let ?m = "fold max (map (interest_score P lt) js) bs"
    have ge: "?m \<ge> bs" by (rule fold_max_ge)
    have "interest_loop P lt (j # js) (bm, bs) = interest_loop P lt js (bm, bs)"
      using nd False by (simp add: Let_def)
    also have "\<dots> = Inr (if ?m > bs then find (\<lambda>i. interest_score P lt i = ?m) js else bm, ?m)"
      by (rule Cons.IH[OF rest])
    finally show ?thesis using False ge by (auto simp: max.absorb2)
  qed
qed

lemma fallback_refines:
  "fallbackClassification P (JString text) interests = tier2_spec P text interests"
proof (cases "find (\<lambda>i. str_includes (toLowerCase P text) (toLowerCase P i)) interests")
  case None
  show ?thesis
    unfolding fallbackClassification_def tier2_spec_def Let_def Max.set_eq_fold
    by (simp add: interest_loop_scores[OF None] None split: option.splits)
next
  case (Some i)
  show ?thesis
    unfolding fallbackClassification_def tier2_spec_def Let_def
    by (simp add: interest_loop_direct[OF Some] Some split: option.splits)
qed

lemma fallback_spam_first:
  assumes "k \<in> set fallback_spamKeywords" and "str_includes (toLowerCase P text) k"
  shows "\<exists>k'\<in>set fallback_spamKeywords. str_includes (toLowerCase P text) k'
           \<and> fallbackClassification P (JString text) interests
               = \<lparr>isUninteresting = True, reason = js ''Spam keyword: '' @ k'\<rparr>"
proof -
  from assms have "find (str_includes (toLowerCase P text)) fallback_spamKeywords \<noteq> None"
    by (auto simp: find_None_iff)
  then obtain k' where f: "find (str_includes (toLowerCase P text)) fallback_spamKeywords = Some k'"
    by auto
  then have "k' \<in> set fallback_spamKeywords" and "str_includes (toLowerCase P text) k'"
    by (auto simp: find_Some_iff)
  moreover have "fallbackClassification P (JString text) interests
      = \<lparr>isUninteresting = True, reason = js ''Spam keyword: '' @ k'\<rparr>"
    by (simp add: fallbackClassification_def f)
  ultimately show ?thesis by blast
qed

text \<open>
  C1.  For every string of code units, every interest list and every engine, the
  fallback classifier computes exactly what the six rules give when they are tried
  in the order spam keyword, direct interest match, engagement bait prefix, quality
  indicator, weak overlap score above one half, and otherwise hide; in particular a
  text whose lower-cased form contains a spam keyword is hidden with a reason
  naming a keyword it contains, whatever the interests are.
\<close>

theorem fallbackClassification_precedence:
  "fallbackClassification P (JString text) interests = tier2_spec P text interests
   \<and> (\<forall>k\<in>set fallback_spamKeywords. str_includes (toLowerCase P text) k \<longrightarrow>
        (\<exists>k'\<in>set fallback_spamKeywords. str_includes (toLowerCase P text) k'
           \<and> fallbackClassification P (JString text) interests
               = \<lparr>isUninteresting = True, reason = js ''Spam keyword: '' @ k'\<rparr>))"
  using fallback_refines fallback_spam_first by blast

theorem fallbackClassification_precedence_witness:
  "js ''buy now'' \<in> set fallback_spamKeywords
   \<and> str_includes (toLowerCase sample_engine (js ''Buy now! great ai research'')) (js ''buy now'')
   \<and> fallbackClassification sample_engine (JString (js ''Buy now! great ai research'')) [js ''ai'']
     = \<lparr>isUninteresting = True, reason = js ''Spam keyword: buy now''\<rparr>
   \<and> fallbackClassification sample_engine (JString (js ''great ai research'')) [js ''ai'']
     = \<lparr>isUninteresting = False, reason = js ''Direct match: ai''\<rparr>
   \<and> fallbackClassification sample_engine (JString (js ''CAF'' @ [0xC9] @ js '' time''))
       [js ''caf'' @ [0xE9]]
     = \<lparr>isUninteresting = False, reason = js ''Direct match: caf'' @ [0xE9]\<rparr>
   \<and> fallbackClassification sample_engine (JString (js ''ai'' @ [0xA0] @ js ''news''))
       [js ''artificial intelligence'']
     = \<lparr>isUninteresting = False,
        reason = js ''Semantic match: artificial intelligence (100%)''\<rparr>"
proof -
  have r1: "fallbackClassification sample_engine (JString (js ''Buy now! great ai research'')) [js ''ai'']
          = tier2_spec sample_engine (js ''Buy now! great ai research'') [js ''ai'']"
    using fallbackClassification_precedence
      [of sample_engine "js ''Buy now! great ai research''" "[js ''ai'']"]
    by (rule conjunct1)
  have r2: "fallbackClassification sample_engine (JString (js ''great ai research'')) [js ''ai'']
          = tier2_spec sample_engine (js ''great ai research'') [js ''ai'']"
    using fallbackClassification_precedence [of sample_engine "js ''great ai research''" "[js ''ai'']"]
    by (rule conjunct1)
  have r3: "fallbackClassification sample_engine (JString (js ''CAF'' @ [0xC9] @ js '' time''))
            [js ''caf'' @ [0xE9]]
          = tier2_spec sample_engine (js ''CAF'' @ [0xC9] @ js '' time'') [js ''caf'' @ [0xE9]]"
    using fallbackClassification_precedence
      [of sample_engine "js ''CAF'' @ [0xC9] @ js '' time''" "[js ''caf'' @ [0xE9]]"]
    by (rule conjunct1)
  have r4: "fallbackClassification sample_engine (JString (js ''ai'' @ [0xA0] @ js ''news''))
            [js ''artificial intelligence'']
          = tier2_spec sample_engine (js ''ai'' @ [0xA0] @ js ''news'') [js ''artificial intelligence'']"
    using fallbackClassification_precedence
      [of sample_engine "js ''ai'' @ [0xA0] @ js ''news''" "[js ''artificial intelligence'']"]
    by (rule conjunct1)
  have t1: "tier2_spec sample_engine (js ''Buy now! great ai research'') [js ''ai'']
          = \<lparr>isUninteresting = True, reason = js ''Spam keyword: buy now''\<rparr>"
    by (simp add: tier2_spec_def engine_simps fallback_spamKeywords_def)
  have t2: "tier2_spec sample_engine (js ''great ai research'') [js ''ai'']
          = \<lparr>isUninteresting = False, reason = js ''Direct match: ai''\<rparr>"
    by (simp add: tier2_spec_def engine_simps fallback_spamKeywords_def)
  have t3: "tier2_spec sample_engine (js ''CAF'' @ [0xC9] @ js '' time'') [js ''caf'' @ [0xE9]]
          = \<lparr>isUninteresting = False, reason = js ''Direct match: caf'' @ [0xE9]\<rparr>"
    by (simp add: tier2_spec_def engine_simps fallback_spamKeywords_def)
  have t4: "tier2_spec sample_engine (js ''ai'' @ [0xA0] @ js ''news'') [js ''artificial intelligence'']
          = \<lparr>isUninteresting = False,
             reason = js ''Semantic match: artificial intelligence (100%)''\<rparr>"
    by (simp add: tier2_spec_def engine_simps fallback_spamKeywords_def qualityIndicators_def
        bait_test_def bait_prefixes_def startsWith_def interest_score_def matchCount_def
        pair_matches_def split_ws_def isSpace_def show_nat.simps digit_char_def show_match_def)
  have k: "js ''buy now'' \<in> set fallback_spamKeywords"
    by (simp add: fallback_spamKeywords_def)
  have inc: "str_includes (toLowerCase sample_engine (js ''Buy now! great ai research'')) (js ''buy now'')"
    by (simp add: engine_simps)
  show ?thesis
    unfolding r1 r2 r3 r4 t1 t2 t3 t4 using k inc by simp
qed

section \<open>The provider-backed classifier\<close>

lemma cosine_loop_sums:
  "length a = length b \<Longrightarrow>
   cosine_loop a b (d, na, nb) =
     Some (d + dot_product a b, na + sum_list (map (\<lambda>x. x\<^sup>2) a), nb + sum_list (map (\<lambda>x. x\<^sup>2) b))"
  by (induction a b arbitrary: d na nb rule: list_induct2) (simp_all add: dot_product_def algebra_simps)

lemma sum_squares_nonneg: "0 \<le> sum_list (map (\<lambda>x. x\<^sup>2) (a :: real list))"
  by (induction a) simp_all

lemma two_dim_step:
  fixes x y D A B :: real
  assumes "0 \<le> A" "0 \<le> B" "D\<^sup>2 \<le> A * B"
  shows "(x * y + D)\<^sup>2 \<le> (x\<^sup>2 + A) * (y\<^sup>2 + B)"
proof -
  have absD: "\<bar>D\<bar> \<le> sqrt A * sqrt B"
    using assms by (metis real_sqrt_abs real_sqrt_le_iff real_sqrt_mult)
  have "0 \<le> (\<bar>x\<bar> * sqrt B - \<bar>y\<bar> * sqrt A)\<^sup>2" by simp
  then have "2 * (\<bar>x\<bar> * \<bar>y\<bar>) * (sqrt A * sqrt B) \<le> x\<^sup>2 * B + y\<^sup>2 * A"
    using assms(1,2) by (simp add: power2_diff power_mult_distrib algebra_simps)
  moreover have "2 * (x * y) * D \<le> 2 * (\<bar>x\<bar> * \<bar>y\<bar>) * \<bar>D\<bar>"
    by (metis abs_ge_self abs_mult abs_numeral mult.assoc)
  moreover have "2 * (\<bar>x\<bar> * \<bar>y\<bar>) * \<bar>D\<bar> \<le> 2 * (\<bar>x\<bar> * \<bar>y\<bar>) * (sqrt A * sqrt B)"
    using absD by (intro mult_left_mono) simp_all
  ultimately have "2 * (x * y) * D \<le> x\<^sup>2 * B + y\<^sup>2 * A" by linarith
  then show ?thesis using assms(3) by (simp add: power2_sum power_mult_distrib algebra_simps)
qed

lemma dot_product_squared_le:
  "length a = length b \<Longrightarrow>
   (dot_product a b)\<^sup>2 \<le> sum_list (map (\<lambda>x. x\<^sup>2) a) * sum_list (map (\<lambda>x. x\<^sup>2) b)"
proof (induction a b rule: list_induct2)
  case Nil
  then show ?case by (simp add: dot_product_def)
next
  case (Cons x xs y ys)
  have "(x * y + dot_product xs ys)\<^sup>2
        \<le> (x\<^sup>2 + sum_list (map (\<lambda>x. x\<^sup>2) xs)) * (y\<^sup>2 + sum_list (map (\<lambda>x. x\<^sup>2) ys))"
    by (rule two_dim_step[OF sum_squares_nonneg sum_squares_nonneg Cons.IH])
  then show ?case by (simp add: dot_product_def)
qed

lemma cosine_eq_spec:
  assumes "length a = length b" "vec_norm a \<noteq> 0" "vec_norm b \<noteq> 0"
  shows "cosine a b = Some (cosine_spec a b)"
  using assms by (simp add: cosine_def cosine_loop_sums cosine_spec_def vec_norm_def)

lemma cosine_spec_ge:
  assumes "length a = length b" "vec_norm a \<noteq> 0" "vec_norm b \<noteq> 0"
  shows "- 1 \<le> cosine_spec a b"
proof -
  let ?A = "sum_list (map (\<lambda>x. x\<^sup>2) a)" and ?B = "sum_list (map (\<lambda>x. x\<^sup>2) b)"
  have pos: "0 < sqrt ?A * sqrt ?B"
    using assms(2,3) sum_squares_nonneg[of a] sum_squares_nonneg[of b]
    by (simp add: vec_norm_def zero_less_mult_iff less_le)
  have "\<bar>dot_product a b\<bar> \<le> sqrt ?A * sqrt ?B"
    using dot_product_squared_le[OF assms(1)]
    by (metis real_sqrt_abs real_sqrt_le_iff real_sqrt_mult)
  then have "- (sqrt ?A * sqrt ?B) \<le> dot_product a b" by linarith
  then have "- 1 \<le> dot_product a b / (sqrt ?A * sqrt ?B)"
    using pos by (simp add: pos_le_divide_eq)
  then show ?thesis by (simp add: cosine_spec_def vec_norm_def)
qed

lemma fold_maxSim_step:
  assumes "\<forall>e\<in>set es. cosine emb (snd e) = Some (cosine_spec emb (snd e))"
  shows "fold (maxSim_step emb) es m = fold max (map (\<lambda>e. cosine_spec emb (snd e)) es) m"
  using assms
proof (induction es arbitrary: m)
  case Nil
  then show ?case by simp
next
  case (Cons e es)
  have "maxSim_step emb e m = max (cosine_spec emb (snd e)) m"
    using Cons.prems by (auto simp: maxSim_step_def max_def)
  then show ?case using Cons by simp
qed

lemma fold_max_floor:
  fixes xs :: "real list"
  assumes "xs \<noteq> []" "\<forall>x\<in>set xs. m \<le> x"
  shows "fold max xs m = Max (set xs)"
proof -
  obtain y ys where xs: "xs = y # ys" using assms(1) by (cases xs) auto
  have "max y m = y" using assms(2) xs by (simp add: max.absorb1)
  then have "fold max xs m = fold max ys y" by (simp add: xs)
  also have "\<dots> = Max (set (y # ys))" by (rule Max.set_eq_fold[symmetric])
  finally show ?thesis by (simp only: xs)
qed

lemma js_append_nonempty [simp]: "js (c # s) @ t \<noteq> []"
  by (simp add: js_def)

lemma fallback_reason_nonempty: "reason (fallbackClassification P v interests) \<noteq> []"
proof (cases v)
  case (JString t)
  have "reason (tier2_spec P t interests) \<noteq> []"
    by (simp add: tier2_spec_def Let_def js_def split: option.splits)
  then show ?thesis by (simp add: JString fallback_refines)
qed (simp_all add: fallbackClassification_def js_def)

lemma classify_spam:
  assumes "k \<in> set (spamList st)" and "toLowerCase P k = k"
    and "str_includes (toLowerCase P t) (toLowerCase P k)"
  shows "classify P st (JString t) = Inr (\<lparr>isUninteresting = True, reason = js ''Spam''\<rparr>, [])"
proof -
  have "list_ex (\<lambda>k. str_includes (toLowerCase P t) k) (spamList st)"
    using assms by (auto simp: list_ex_iff)
  then show ?thesis by (simp add: classify_def)
qed

lemma classify_similarity:
  assumes nospam: "\<not> list_ex (\<lambda>k. str_includes (toLowerCase P t) k) (spamList st)"
    and ne: "interestEmbeddings st \<noteq> []"
    and cl: "classifier st = Some model"
    and n0: "vec_norm (model t) \<noteq> 0"
    and wf: "\<forall>e\<in>set (interestEmbeddings st). length (snd e) = length (model t) \<and> vec_norm (snd e) \<noteq> 0"
  shows "classify P st (JString t) =
     Inr (\<lparr>isUninteresting = (max_similarity (model t) (interestEmbeddings st) < threshold st),
           reason = js (''sim='' @ toFixed2 (max_similarity (model t) (interestEmbeddings st)))\<rparr>, [t])"
proof -
  let ?es = "interestEmbeddings st"
  have eq: "\<forall>e\<in>set ?es. cosine (model t) (snd e) = Some (cosine_spec (model t) (snd e))"
    using wf n0 by (auto intro!: cosine_eq_spec)
  have ge: "\<forall>x\<in>set (map (\<lambda>e. cosine_spec (model t) (snd e)) ?es). - 1 \<le> x"
    using wf n0 by (auto intro!: cosine_spec_ge)
  have "fold (maxSim_step (model t)) ?es (- 1) = fold max (map (\<lambda>e. cosine_spec (model t) (snd e)) ?es) (- 1)"
    by (rule fold_maxSim_step[OF eq])
  also have "\<dots> = max_similarity (model t) ?es"
    unfolding max_similarity_def using ne ge by (intro fold_max_floor) simp_all
  finally have m: "fold (maxSim_step (model t)) ?es (- 1) = max_similarity (model t) ?es" .
  show ?thesis using nospam ne cl by (simp add: classify_def Let_def m)
qed

text \<open>
  C2.  The provider-backed \<open>classify\<close> does not return a result for a text that is
  not a string: \<open>tweet.toLowerCase()\<close> throws a \<open>TypeError\<close> for \<open>null\<close>, for
  \<open>undefined\<close> and for a number, in every state of the offscreen document.  (The
  fallback classifier does return a result with a non-empty reason for every
  value, see \<open>fallback_reason_nonempty\<close>.)
\<close>

theorem classify_throws_on_non_string:
  "classify P st JNull = Inl (TypeError ''Cannot read properties of null (reading toLowerCase)'')
   \<and> classify P st JUndefined
       = Inl (TypeError ''Cannot read properties of undefined (reading toLowerCase)'')
   \<and> classify P st (JNumber 42) = Inl (TypeError ''tweet.toLowerCase is not a function'')"
  by (simp add: classify_def)

lemma configured_unloaded_eq:
  "configured_unloaded is =
      \<lparr>classifier = None, interestEmbeddings = [], spamList = spamKeywords, threshold = 35 / 100\<rparr>"
  by (simp add: configured_unloaded_def on_SET_INTERESTS_def recalcEmbeddings_def
      offscreen_init_def SIM_THRESHOLD_def)

lemma toy_loaded_eq:
  "toy_loaded =
      \<lparr>classifier = Some toy_model,
       interestEmbeddings = [(js ''ai'', [1, 0]), (js ''music'', [0, 1])],
       spamList = spamKeywords, threshold = 35 / 100\<rparr>"
  by (simp add: toy_loaded_def on_SET_INTERESTS_def recalcEmbeddings_def ensureModel_resolved_def
      offscreen_init_def toy_model_def SIM_THRESHOLD_def lower_unit_def js_def)

text \<open>
  C3, as the claim states it, fails: with an empty interest set a text that contains
  a configured spam keyword is hidden with reason \<open>Spam\<close>, not kept with reason
  \<open>No interests\<close>.
\<close>

theorem classify_no_interests_counterexample:
  "interestEmbeddings (configured_unloaded []) = []
   \<and> classify sample_engine (configured_unloaded []) (JString (js ''Promoted post''))
       = Inr (\<lparr>isUninteresting = True, reason = js ''Spam''\<rparr>, [])
   \<and> classify sample_engine (configured_unloaded []) (JString (js ''Promoted post''))
       \<noteq> Inr (\<lparr>isUninteresting = False, reason = js ''No interests''\<rparr>, [])"
  by (simp add: configured_unloaded_eq classify_def spamKeywords_def engine_simps)

text \<open>
  C3, amended.  For a text that contains no configured spam keyword: with an empty
  interest set the result is keep with reason \<open>No interests\<close> and the provider is
  not called; with cached interest embeddings (of the provider's dimension, not
  zero) the provider is called once, on the text, and the result is
  \<open>isUninteresting = (m < threshold)\<close> with reason \<open>sim=\<close> followed by \<open>m\<close> to two
  decimals, where \<open>m\<close> is the largest of the values \<open>dot(a,b) / (\<parallel>a\<parallel> \<sqdot> \<parallel>b\<parallel>)\<close>
  over the cached embeddings.  The threshold is 0.35 initially and whenever a
  \<open>SET_INTERESTS\<close> message carries none.
\<close>

theorem classify_tier1:
  assumes "\<not> list_ex (\<lambda>k. str_includes (toLowerCase P t) k) (spamList st)"
  shows "(interestEmbeddings st = [] \<longrightarrow>
            classify P st (JString t)
              = Inr (\<lparr>isUninteresting = False, reason = js ''No interests''\<rparr>, []))
       \<and> (interestEmbeddings st \<noteq> [] \<and> classifier st = Some model \<and> vec_norm (model t) \<noteq> 0
            \<and> (\<forall>e\<in>set (interestEmbeddings st).
                  length (snd e) = length (model t) \<and> vec_norm (snd e) \<noteq> 0) \<longrightarrow>
            classify P st (JString t) =
              Inr (\<lparr>isUninteresting = (max_similarity (model t) (interestEmbeddings st) < threshold st),
                    reason = js (''sim='' @ toFixed2 (max_similarity (model t) (interestEmbeddings st)))\<rparr>,
                   [t]))
       \<and> threshold offscreen_init = 35 / 100
       \<and> threshold (on_SET_INTERESTS st
            \<lparr>msg_interests = i, msg_spamKeywords = k, msg_threshold = None\<rparr>) = 35 / 100"
proof -
  have "interestEmbeddings st = [] \<Longrightarrow>
      classify P st (JString t) = Inr (\<lparr>isUninteresting = False, reason = js ''No interests''\<rparr>, [])"
    using assms by (simp add: classify_def)
  moreover have "threshold offscreen_init = 35 / 100"
    by (simp add: offscreen_init_def)
  moreover have "threshold (on_SET_INTERESTS st
      \<lparr>msg_interests = i, msg_spamKeywords = k, msg_threshold = None\<rparr>) = 35 / 100"
    by (simp add: on_SET_INTERESTS_def Let_def)
  ultimately show ?thesis using classify_similarity[OF assms] by blast
qed

theorem classify_tier1_witness:
  "\<not> list_ex (\<lambda>k. str_includes (toLowerCase sample_engine (js ''AI news'')) k) (spamList toy_loaded)
   \<and> interestEmbeddings toy_loaded = [(js ''ai'', [1, 0]), (js ''music'', [0, 1])]
   \<and> classify sample_engine toy_loaded (JString (js ''AI news''))
       = Inr (\<lparr>isUninteresting = False, reason = js ''sim=1.00''\<rparr>, [js ''AI news''])
   \<and> \<not> list_ex (\<lambda>k. str_includes (toLowerCase sample_engine (js ''AI news'')) k)
         (spamList (configured_unloaded [js ''ai'']))
   \<and> classify sample_engine (configured_unloaded [js ''ai'']) (JString (js ''AI news''))
       = Inr (\<lparr>isUninteresting = False, reason = js ''No interests''\<rparr>, [])"
proof -
  note st = toy_loaded_eq and cu = configured_unloaded_eq [of "[js ''ai'']"]
  have nospam: "\<not> list_ex (\<lambda>k. str_includes (toLowerCase sample_engine (js ''AI news'')) k) spamKeywords"
    by (simp add: spamKeywords_def engine_simps)
  have emb: "toy_model (js ''AI news'') = [1, 0]"
    by (simp add: toy_model_def lower_unit_def js_def)
  have m: "max_similarity [1, 0] [(js ''ai'', [1, 0]), (js ''music'', [0, 1])] = 1"
    by (simp add: max_similarity_def cosine_spec_def dot_product_def vec_norm_def)
  have fx: "toFixed2 1 = ''1.00''"
    by (simp add: toFixed2_def show_nat.simps digit_char_def)
  have a: "\<not> list_ex (\<lambda>k. str_includes (toLowerCase sample_engine (js ''AI news'')) k)
      (spamList toy_loaded)"
    using nospam by (simp add: st)
  have b: "\<not> list_ex (\<lambda>k. str_includes (toLowerCase sample_engine (js ''AI news'')) k)
      (spamList (configured_unloaded [js ''ai'']))"
    using nospam by (simp add: cu)
  have "classify sample_engine toy_loaded (JString (js ''AI news''))
       = Inr (\<lparr>isUninteresting = False, reason = js ''sim=1.00''\<rparr>, [js ''AI news''])"
    using classify_tier1 [OF a, of toy_model]
    by (simp add: st emb m fx vec_norm_def)
  moreover have "classify sample_engine (configured_unloaded [js ''ai'']) (JString (js ''AI news''))
       = Inr (\<lparr>isUninteresting = False, reason = js ''No interests''\<rparr>, [])"
    using classify_tier1 [OF b] by (simp add: cu)
  ultimately show ?thesis using a b by (simp add: st)
qed

lemma sample_engine_lowers_basic_latin: "lowers_basic_latin sample_engine"
proof -
  have "lower_unit c = ascii_fold c" if "c < 0x80" for c
    using that by (auto simp: lower_unit_def ascii_fold_def word_le_nat_alt word_less_nat_alt)
  then show ?thesis
    by (auto simp: lowers_basic_latin_def sample_engine_def list_all_iff)
qed

lemma spamKeywords_lower_case:
  assumes "lowers_basic_latin P"
  shows "list_all (\<lambda>k. toLowerCase P k = k) spamKeywords"
proof -
  have "toLowerCase P k = k" if "list_all (\<lambda>c. c < 0x80) k" "map ascii_fold k = k" for k
    using assms that by (simp add: lowers_basic_latin_def)
  then show ?thesis
    by (simp add: spamKeywords_def js_def ascii_fold_def)
qed

text \<open>
  C10.  In the provider-backed classifier the spam check comes first: a text that
  contains a configured spam keyword without regard to case (the keyword being
  lower-case, as every keyword the background script configures is) is hidden with
  reason \<open>Spam\<close>, whatever the cached interest embeddings are, the empty list
  included, and the provider is not called.
\<close>

theorem classify_spam_first:
  assumes "k \<in> set (spamList st)" and "toLowerCase P k = k"
    and "str_includes (toLowerCase P t) (toLowerCase P k)"
  shows "classify P st (JString t) = Inr (\<lparr>isUninteresting = True, reason = js ''Spam''\<rparr>, [])"
  using assms by (rule classify_spam)

theorem classify_spam_first_witness:
  "js ''promoted'' \<in> set (spamList (configured_unloaded [js ''ai'']))
   \<and> toLowerCase sample_engine (js ''promoted'') = js ''promoted''
   \<and> str_includes (toLowerCase sample_engine (js ''PROMOTED: win a phone''))
        (toLowerCase sample_engine (js ''promoted''))
   \<and> interestEmbeddings (configured_unloaded [js ''ai'']) = []
   \<and> classify sample_engine (configured_unloaded [js ''ai'']) (JString (js ''PROMOTED: win a phone''))
       = Inr (\<lparr>isUninteresting = True, reason = js ''Spam''\<rparr>, [])
   \<and> classify sample_engine toy_loaded (JString (js ''PROMOTED: win a phone''))
       = Inr (\<lparr>isUninteresting = True, reason = js ''Spam''\<rparr>, [])"
proof -
  note cu = configured_unloaded_eq [of "[js ''ai'']"]
  have tl: "spamList toy_loaded = spamKeywords"
    by (simp add: toy_loaded_eq)
  have k1: "js ''promoted'' \<in> set (spamList (configured_unloaded [js ''ai'']))"
    by (simp add: cu spamKeywords_def)
  have k2: "js ''promoted'' \<in> set (spamList toy_loaded)"
    by (simp add: tl spamKeywords_def)
  have lc: "toLowerCase sample_engine (js ''promoted'') = js ''promoted''"
    by (simp add: engine_simps)
  have inc: "str_includes (toLowerCase sample_engine (js ''PROMOTED: win a phone''))
      (toLowerCase sample_engine (js ''promoted''))"
    by (simp add: engine_simps)
  show ?thesis
    using classify_spam_first [OF k1 lc inc] classify_spam_first [OF k2 lc inc] k1 lc inc
    by (simp add: cu)
qed

section \<open>The decision log\<close>

lemma logLine_length:
  "length (stored_log store) \<le> 2000 \<Longrightarrow> length (stored_log (logLine env a store)) \<le> 2000"
  by (auto simp: logLine_def Let_def stored_log_def split: option.splits)

lemma logLines_length:
  "length (stored_log store) \<le> 2000 \<Longrightarrow> length (stored_log (logLines calls store)) \<le> 2000"
  unfolding logLines_def
  by (induction calls arbitrary: store) (auto simp: logLine_length)

lemma logLine_appending:
  "appending c \<Longrightarrow>
   stored_log (logLine (fst c) (snd c) store) =
     (if length (stored_log store) \<ge> 2000
      then tl (stored_log store @ [entry_of c])
      else stored_log store @ [entry_of c])"
  by (auto simp: logLine_def appending_def entry_of_def Let_def stored_log_def split: option.splits)

lemma logLines_snoc: "logLines (calls @ [c]) store = logLine (fst c) (snd c) (logLines calls store)"
  by (simp add: logLines_def case_prod_beta)

lemma logLines_appending:
  "list_all appending calls \<Longrightarrow>
   stored_log (logLines calls None) = drop (length calls - 2000) (map entry_of calls)"
proof (induction calls rule: rev_induct)
  case Nil
  then show ?case by (simp add: logLines_def stored_log_def)
next
  case (snoc c calls)
  then have ap: "appending c" and IH: "stored_log (logLines calls None)
      = drop (length calls - 2000) (map entry_of calls)"
    by simp_all
  show ?case
  proof (cases "length calls \<ge> 2000")
    case True
    then have len: "length (stored_log (logLines calls None)) \<ge> 2000"
      by (simp add: IH)
    have ne: "drop (length calls - 2000) (map entry_of calls) \<noteq> []"
      using True by simp
    have "stored_log (logLines (calls @ [c]) None)
        = tl (drop (length calls - 2000) (map entry_of calls) @ [entry_of c])"
      using len by (simp add: logLines_snoc logLine_appending[OF ap] IH)
    also have "\<dots> = tl (drop (length calls - 2000) (map entry_of calls)) @ [entry_of c]"
      using ne by simp
    also have "\<dots> = drop (Suc (length calls - 2000)) (map entry_of calls) @ [entry_of c]"
      by (simp add: drop_Suc tl_drop)
    also have "\<dots> = drop (length (calls @ [c]) - 2000) (map entry_of (calls @ [c]))"
    proof -
      have e: "length (calls @ [c]) - 2000 = Suc (length calls - 2000)"
        using True by (simp add: Suc_diff_le)
      show ?thesis unfolding e using True by simp
    qed
    finally show ?thesis .
  next
    case False
    then have len: "\<not> length (stored_log (logLines calls None)) \<ge> 2000"
      by (simp add: IH)
    have "stored_log (logLines (calls @ [c]) None) = map entry_of calls @ [entry_of c]"
      using len False by (simp add: logLines_snoc logLine_appending[OF ap] IH)
    then show ?thesis using False by simp
  qed
qed

text \<open>
  C4.  The log never grows beyond 2000 entries: a log of at most 2000 entries stays
  so under every sequence of \<open>logLine\<close> calls.  Calls that append (arguments present,
  storage working) push to the end and drop the oldest entry once the length
  exceeds 2000; from the empty log, 2001 such calls leave exactly the last 2000
  entries, without the first.
\<close>

theorem logLine_ring_buffer:
  "(length (stored_log store) \<le> 2000 \<longrightarrow> length (stored_log (logLines calls store)) \<le> 2000)
   \<and> (list_all appending calls \<longrightarrow>
        stored_log (logLines calls None) = drop (length calls - 2000) (map entry_of calls))
   \<and> (list_all appending calls \<and> length calls = 2001 \<longrightarrow>
        length (stored_log (logLines calls None)) = 2000
        \<and> stored_log (logLines calls None) = drop 1 (map entry_of calls))"
  by (auto simp: logLines_length logLines_appending)

theorem logLine_ring_buffer_witness:
  "list_all appending (sample_calls 2001) \<and> length (sample_calls 2001) = 2001
   \<and> length (stored_log (logLines (sample_calls 2001) None)) = 2000
   \<and> stored_log (logLines (sample_calls 2001) None) = map (entry_of \<circ> sample_call) [1..<2001]"
proof -
  have ap: "list_all appending (sample_calls 2001)"
    by (simp add: sample_calls_def list_all_iff appending_def sample_call_def)
  have len: "length (sample_calls 2001) = 2001"
    by (simp add: sample_calls_def)
  have d: "drop 1 (map entry_of (sample_calls 2001)) = map (entry_of \<circ> sample_call) [1..<2001]"
    by (simp add: sample_calls_def drop_map drop_upt)
  from logLine_ring_buffer [of None "sample_calls 2001"] ap len
  have "length (stored_log (logLines (sample_calls 2001) None)) = 2000"
    and "stored_log (logLines (sample_calls 2001) None) = drop 1 (map entry_of (sample_calls 2001))"
    by blast+
  then show ?thesis using ap len d by simp
qed

section \<open>The model manager\<close>

lemma getMiniLMPipeline_memo:
  "loadPromise s = Some p \<Longrightarrow> getMiniLMPipeline t s = ((p, None), s)"
  by (simp add: getMiniLMPipeline_def)

lemma getMiniLMPipeline_joins_pending:
  "getMiniLMPipeline t2 (snd (getMiniLMPipeline t1 s))
     = ((fst (fst (getMiniLMPipeline t1 s)), None), snd (getMiniLMPipeline t1 s))
   \<and> attempts (snd (getMiniLMPipeline t1 s))
       = (if loadPromise s = None then attempts s + 1 else attempts s)"
  by (cases "loadPromise s"; cases t1) (simp_all add: getMiniLMPipeline_def)

lemma attempt_settles_failure:
  "fst (attempt_settles env s) = Inl m \<Longrightarrow> pipeline env \<noteq> PipelineRejectsWithoutMessage \<Longrightarrow>
   loadPromise (snd (attempt_settles env s)) = None
   \<and> attempts (snd (attempt_settles env s)) = attempts s"
  by (auto simp: attempt_settles_def attempt_fails_def Let_def
      split: sum.splits option.splits pipeline_outcome.splits)

lemma attempt_settles_success:
  "fst (attempt_settles env s) = Inr u \<Longrightarrow>
   loadPromise (snd (attempt_settles env s)) = loadPromise s
   \<and> attempts (snd (attempt_settles env s)) = attempts s
   \<and> modelReady (snd (attempt_settles env s))"
  by (auto simp: attempt_settles_def attempt_fails_def Let_def
      split: sum.splits option.splits pipeline_outcome.splits)

lemma attempt_failure_resets:
  assumes "loadPromise s = None"
    and "fst (attempt_settles env (snd (getMiniLMPipeline None s))) = Inl m"
    and "pipeline env \<noteq> PipelineRejectsWithoutMessage"
  shows "loadPromise (snd (attempt_settles env (snd (getMiniLMPipeline None s)))) = None
       \<and> fst (fst (getMiniLMPipeline None (snd (attempt_settles env (snd (getMiniLMPipeline None s))))))
           = attempts s + 1
       \<and> attempts (snd (getMiniLMPipeline None (snd (attempt_settles env (snd (getMiniLMPipeline None s))))))
           = attempts s + 2"
proof -
  have a1: "attempts (snd (getMiniLMPipeline None s)) = attempts s + 1"
    using assms(1) by (simp add: getMiniLMPipeline_def)
  show ?thesis
    using attempt_settles_failure[OF assms(2,3)] a1 by (simp add: getMiniLMPipeline_def)
qed

text \<open>
  C5.  The memoized promise is not cleared on every failure.  When
  \<open>chrome.runtime.sendMessage\<close> throws inside the call that starts an attempt, the
  attempt fails before its first \<open>await\<close> and its promise, already rejected, is
  memoized: a later call returns that promise and starts no attempt, also when
  \<open>sendMessage\<close> works again.  A rejection of the pipeline construction with a
  value that has no message leaves the rejected promise memoized as well.  (Calls
  before the settlement do share one promise and one attempt, and a failure with a
  message after the first \<open>await\<close> does clear the memo: see
  \<open>getMiniLMPipeline_joins_pending\<close> and \<open>attempt_failure_resets\<close>.)
\<close>

theorem getMiniLMPipeline_failure_keeps_memo:
  "getMiniLMPipeline (Some ''Extension context invalidated.'') manager_init
     = ((0, Some ''Extension context invalidated.''),
        \<lparr>modelReady = False, loadPromise = Some 0, attempts = 1, sent = []\<rparr>)
   \<and> getMiniLMPipeline None \<lparr>modelReady = False, loadPromise = Some 0, attempts = 1, sent = []\<rparr>
     = ((0, None), \<lparr>modelReady = False, loadPromise = Some 0, attempts = 1, sent = []\<rparr>)
   \<and> fst (attempt_settles bare_rejection_env (snd (getMiniLMPipeline None manager_init)))
     = Inl ''Cannot read properties of undefined (reading includes)''
   \<and> loadPromise (snd (attempt_settles bare_rejection_env (snd (getMiniLMPipeline None manager_init))))
     = Some 0
   \<and> fst (getMiniLMPipeline None
        (snd (attempt_settles bare_rejection_env (snd (getMiniLMPipeline None manager_init)))))
     = (0, None)
   \<and> attempts (snd (getMiniLMPipeline None
        (snd (attempt_settles bare_rejection_env (snd (getMiniLMPipeline None manager_init))))))
     = 1"
proof -
  have probe: "fst (retryFetch online config_url) = Inr (Some (Response 200 ''OK''))"
    by (simp add: retryFetch_def retryFetch_from.simps online_def attempt_error_def response_ok_def)
  have s1: "snd (getMiniLMPipeline None manager_init)
      = \<lparr>modelReady = False, loadPromise = Some 0, attempts = 1,
         sent = [AI_LOAD_PROGRESS ''Initializing...'' 5, AI_LOAD_PROGRESS ''Testing network...'' 10]\<rparr>"
    by (simp add: getMiniLMPipeline_def manager_init_def)
  have s2: "attempt_settles bare_rejection_env (snd (getMiniLMPipeline None manager_init))
      = (Inl ''Cannot read properties of undefined (reading includes)'',
         \<lparr>modelReady = False, loadPromise = Some 0, attempts = 1,
          sent = [AI_LOAD_PROGRESS ''Initializing...'' 5, AI_LOAD_PROGRESS ''Testing network...'' 10,
                  AI_LOAD_PROGRESS ''Loading AI library...'' 15,
                  AI_LOAD_PROGRESS ''Downloading model...'' 20]\<rparr>)"
    by (simp add: s1 attempt_settles_def bare_rejection_env_def probe)
  show ?thesis
    unfolding s2 by (simp add: getMiniLMPipeline_def manager_init_def)
qed

section \<open>The connectivity probe\<close>

lemma show_nat_3: "show_nat 3 = ''3''"
  by (simp add: show_nat.simps digit_char_def)

lemma retryFetch_cases:
  "retryFetch net url =
     (case attempt_error (net 1) of
        None \<Rightarrow> (Inr (Some (net 1)), [Fetch url 30000])
      | Some m1 \<Rightarrow>
     (case attempt_error (net 2) of
        None \<Rightarrow> (Inr (Some (net 2)), [Fetch url 30000, Sleep 1000, Fetch url 30000])
      | Some m2 \<Rightarrow>
     (case attempt_error (net 3) of
        None \<Rightarrow> (Inr (Some (net 3)),
                 [Fetch url 30000, Sleep 1000, Fetch url 30000, Sleep 2000, Fetch url 30000])
      | Some m3 \<Rightarrow> (Inl (''Failed to fetch after 3 attempts: '' @ m3),
                 [Fetch url 30000, Sleep 1000, Fetch url 30000, Sleep 2000, Fetch url 30000]))))"
proof -
  have three: "retryFetch_from net url 3 3 =
      (case attempt_error (net 3) of
         None \<Rightarrow> (Inr (Some (net 3)), [Fetch url 30000])
       | Some m3 \<Rightarrow> (Inl (''Failed to fetch after 3 attempts: '' @ m3), [Fetch url 30000]))"
    by (subst retryFetch_from.simps) (simp add: show_nat_3 split: option.splits)
  have n2: "Suc (Suc 0) = 2" and n3: "Suc 2 = 3"
    by simp_all
  have two: "retryFetch_from net url 3 2 =
      (case attempt_error (net 2) of
         None \<Rightarrow> (Inr (Some (net 2)), [Fetch url 30000])
       | Some m2 \<Rightarrow> (fst (retryFetch_from net url 3 3),
                     Fetch url 30000 # Sleep 2000 # snd (retryFetch_from net url 3 3)))"
    by (subst retryFetch_from.simps) (simp add: Let_def n3 split: option.splits)
  have one: "retryFetch_from net url 3 1 =
      (case attempt_error (net 1) of
         None \<Rightarrow> (Inr (Some (net 1)), [Fetch url 30000])
       | Some m1 \<Rightarrow> (fst (retryFetch_from net url 3 2),
                     Fetch url 30000 # Sleep 1000 # snd (retryFetch_from net url 3 2)))"
    by (subst retryFetch_from.simps) (simp add: Let_def n2 split: option.splits)
  show ?thesis
    unfolding retryFetch_def one two three by (simp split: option.splits)
qed

lemma failure_message_probe:
  "failure_message (''Network connectivity issue: '' @ ''Failed to fetch after 3 attempts: '' @ m)
     = ''Network error: Check internet connection and try again''"
proof -
  have "str_includes ''Failed to fetch after 3 attempts: '' ''fetch''"
    by simp
  then have "str_includes (''Failed to fetch after 3 attempts: '' @ m) ''fetch''"
    by (rule str_includes_append_left)
  then have "str_includes (''Network connectivity issue: '' @ ''Failed to fetch after 3 attempts: '' @ m) ''fetch''"
    by (rule str_includes_append_right)
  then show ?thesis unfolding failure_message_def by (simp only: if_True)
qed

text \<open>
  C6, as the claim states it, fails: with three attempts there are two sleeps, of
  1 s and 2 s; no sleep of 4 s takes place.
\<close>

theorem retryFetch_backoff_counterexample:
  "filter is_sleep (snd (retryFetch offline config_url)) = [Sleep 1000, Sleep 2000]
   \<and> filter is_sleep (snd (retryFetch offline config_url)) \<noteq> [Sleep 1000, Sleep 2000, Sleep 4000]
   \<and> Sleep 4000 \<notin> set (snd (retryFetch offline config_url))"
  by (simp add: retryFetch_cases offline_def attempt_error_def)

text \<open>
  C6, amended.  The probe fetches the endpoint at most three times, each fetch under
  a timeout of 30 s, sleeping 1 s after a failed first attempt and 2 s after a
  failed second one, and nothing after the third.  When all three attempts fail it
  throws \<open>Failed to fetch after 3 attempts: \<close> followed by the last error; the load
  attempt then fails, reports \<open>Network error: Check internet connection and try again\<close>,
  which the background script classifies as a network error, and clears the
  memoized promise.
\<close>

theorem retryFetch_bounded_backoff:
  "snd (retryFetch net url) \<in>
      {[Fetch url 30000],
       [Fetch url 30000, Sleep 1000, Fetch url 30000],
       [Fetch url 30000, Sleep 1000, Fetch url 30000, Sleep 2000, Fetch url 30000]}
   \<and> (attempt_error (net 1) \<noteq> None \<and> attempt_error (net 2) \<noteq> None
        \<and> attempt_error (net 3) = Some m \<longrightarrow>
        retryFetch net url =
          (Inl (''Failed to fetch after 3 attempts: '' @ m),
           [Fetch url 30000, Sleep 1000, Fetch url 30000, Sleep 2000, Fetch url 30000])
        \<and> (probe env = net \<longrightarrow>
             sent (snd (attempt_settles env s)) =
               sent s @ [AI_LOAD_FAILED ''Network error: Check internet connection and try again'']
             \<and> loadPromise (snd (attempt_settles env s)) = None
             \<and> isNetworkError ''Network error: Check internet connection and try again''))"
proof -
  have trace: "snd (retryFetch net url) \<in>
      {[Fetch url 30000],
       [Fetch url 30000, Sleep 1000, Fetch url 30000],
       [Fetch url 30000, Sleep 1000, Fetch url 30000, Sleep 2000, Fetch url 30000]}"
    by (simp add: retryFetch_cases split: option.splits)
  have net: "isNetworkError ''Network error: Check internet connection and try again''"
    by (simp add: isNetworkError_def)
  have fail: "retryFetch net u =
          (Inl (''Failed to fetch after 3 attempts: '' @ m),
           [Fetch u 30000, Sleep 1000, Fetch u 30000, Sleep 2000, Fetch u 30000])"
    if "attempt_error (net 1) \<noteq> None" "attempt_error (net 2) \<noteq> None" "attempt_error (net 3) = Some m"
    for u
    using that by (auto simp: retryFetch_cases split: option.splits)
  have settle: "sent (snd (attempt_settles env s)) =
               sent s @ [AI_LOAD_FAILED ''Network error: Check internet connection and try again'']
             \<and> loadPromise (snd (attempt_settles env s)) = None"
    if "attempt_error (net 1) \<noteq> None" "attempt_error (net 2) \<noteq> None" "attempt_error (net 3) = Some m"
      "probe env = net"
    using fail[OF that(1-3), of config_url] that(4)
    by (simp add: attempt_settles_def attempt_fails_def failure_message_probe del: append.simps)
  show ?thesis using trace net fail settle by blast
qed

theorem retryFetch_bounded_backoff_witness:
  "attempt_error (offline 1) \<noteq> None \<and> attempt_error (offline 2) \<noteq> None
   \<and> attempt_error (offline 3) = Some ''Failed to fetch''
   \<and> probe offline_env = offline
   \<and> retryFetch offline config_url =
       (Inl ''Failed to fetch after 3 attempts: Failed to fetch'',
        [Fetch config_url 30000, Sleep 1000, Fetch config_url 30000, Sleep 2000,
         Fetch config_url 30000])
   \<and> sent (snd (attempt_settles offline_env manager_init))
       = [AI_LOAD_FAILED ''Network error: Check internet connection and try again'']"
proof -
  have e: "attempt_error (offline 1) \<noteq> None" "attempt_error (offline 2) \<noteq> None"
    "attempt_error (offline 3) = Some ''Failed to fetch''"
    by (simp_all add: offline_def attempt_error_def)
  have p: "probe offline_env = offline"
    by (simp add: offline_env_def)
  have s0: "sent manager_init = []"
    by (simp add: manager_init_def)
  show ?thesis
    using retryFetch_bounded_backoff [of offline config_url "''Failed to fetch''" offline_env manager_init]
      e p s0
    by simp
qed

section \<open>The orchestrator\<close>

lemma effects_emit [simp]: "effects (emit e s) = effects s @ [e]"
  and isRunning_emit [simp]: "isRunning (emit e s) = isRunning s"
  and aiReady_emit [simp]: "aiReady (emit e s) = aiReady s"
  and cachedInterests_emit [simp]: "cachedInterests (emit e s) = cachedInterests s"
  by (simp_all add: emit_def)

lemma broadcastStatus_fields [simp]:
  "isRunning (broadcastStatus env s) = isRunning s"
  "aiReady (broadcastStatus env s) = aiReady s"
  "cachedInterests (broadcastStatus env s) = cachedInterests s"
  by (simp_all add: broadcastStatus_def Let_def)

lemma broadcastStatus_effects:
  "effects (broadcastStatus env s) =
     effects s @ SendMessage (STATUS_UPDATE (isRunning s) (aiReady s) (aiStatus_of s))
       # (if status_receiver env then [StorageSet_aiStatus (aiStatus_of s)] else [])"
  by (simp add: broadcastStatus_def Let_def)

lemma effects_since_append: "effects s' = effects s @ new \<Longrightarrow> effects_since s s' = new"
  by (simp add: effects_since_def)

lemma on_AI_LOAD_FAILED_effects:
  "effects (snd (on_AI_LOAD_FAILED env payload s)) =
     effects s
     @ SendMessage (AI_LOAD_FAILED
         (if (case payload of None \<Rightarrow> False | Some p \<Rightarrow> p \<noteq> []) then the payload else ''Unknown error''))
     # (if isNetworkError (if (case payload of None \<Rightarrow> False | Some p \<Rightarrow> p \<noteq> []) then the payload else [])
            \<and> isRunning s
         then [SetTimeout 15000 RetryInitializeAI] else [])
     @ SendMessage (STATUS_UPDATE (isRunning s) False (if isRunning s then Status_loading else Status_stopped))
     # (if status_receiver env
        then [StorageSet_aiStatus (if isRunning s then Status_loading else Status_stopped)] else [])"
  by (simp add: on_AI_LOAD_FAILED_def Let_def broadcastStatus_effects aiStatus_of_def)

lemma not_isNetworkError_empty: "\<not> isNetworkError []"
  by (simp add: isNetworkError_def)

text \<open>
  C8, as the claim states it, fails: the retry is scheduled after 15 seconds, not
  after 2 minutes.
\<close>

theorem on_AI_LOAD_FAILED_delay_counterexample:
  "isNetworkError ''Network error: Check internet connection and try again''
   \<and> isRunning running_state
   \<and> filter is_timer (effects (snd (on_AI_LOAD_FAILED feed_env
        (Some ''Network error: Check internet connection and try again'') running_state)))
       = [SetTimeout 15000 RetryInitializeAI]
   \<and> SetTimeout 120000 RetryInitializeAI \<notin> set (effects (snd (on_AI_LOAD_FAILED feed_env
        (Some ''Network error: Check internet connection and try again'') running_state)))"
proof -
  have n: "isNetworkError ''Network error: Check internet connection and try again''"
    by (simp add: isNetworkError_def)
  show ?thesis
    by (simp add: on_AI_LOAD_FAILED_effects n running_state_def feed_env_def)
qed

text \<open>
  C8, amended.  On a model-load failure whose message is network-classified (it
  contains \<open>Network\<close>, \<open>fetch\<close>, \<open>timeout\<close> or \<open>connectivity\<close>), while curation is
  running, the orchestrator schedules exactly one deferred retry of the model
  initialisation after a fixed delay of 15 seconds; on any other failure, or when
  not running, it schedules none.  On any load failure the running flag is left as
  it is, nothing that stops curation is done, \<open>aiReady\<close> is false, and the handler
  answers with success; a tweet evaluated afterwards is still classified, by the
  fallback classifier unless the provider is ready and replies.  The timer's
  callback initialises the model again if curation is still running and the model
  is still not ready.
\<close>

theorem on_AI_LOAD_FAILED_retry:
  "(isRunning s \<and> payload = Some p \<and> isNetworkError p \<longrightarrow>
      filter is_timer (effects_since s (snd (on_AI_LOAD_FAILED env payload s)))
        = [SetTimeout 15000 RetryInitializeAI])
   \<and> (\<not> isRunning s \<or> payload = None \<or> (payload = Some p \<and> \<not> isNetworkError p) \<longrightarrow>
      filter is_timer (effects_since s (snd (on_AI_LOAD_FAILED env payload s))) = [])
   \<and> isRunning (snd (on_AI_LOAD_FAILED env payload s)) = isRunning s
   \<and> \<not> aiReady (snd (on_AI_LOAD_FAILED env payload s))
   \<and> filter stops_curation (effects_since s (snd (on_AI_LOAD_FAILED env payload s))) = []
   \<and> fst (on_AI_LOAD_FAILED env payload s) = \<lparr>success = True, error = None\<rparr>
   \<and> (isRunning s' \<and> \<not> aiReady s' \<longrightarrow>
        on_retry_timer env s'
          = initializeAI env (emit (SendMessage (AI_LOAD_PROGRESS ''Retrying download...'' 5)) s'))
   \<and> (isRunning s \<longrightarrow>
        (\<exists>r. evaluate_classification P ev (snd (on_AI_LOAD_FAILED env payload s)) tweet = Some r)
        \<and> (isModelReady ev \<and> classify_reply ev \<noteq> None
             \<or> evaluate_classification P ev (snd (on_AI_LOAD_FAILED env payload s)) tweet
                 = Some (fallbackClassification P tweet (cachedInterests s))))"
proof -
  let ?s = "snd (on_AI_LOAD_FAILED env payload s)"
  have since: "effects_since s ?s = drop (length (effects s)) (effects ?s)"
    by (simp add: effects_since_def)
  have a: "filter is_timer (effects_since s ?s) = [SetTimeout 15000 RetryInitializeAI]"
    if "isRunning s" "payload = Some p" "isNetworkError p"
  proof -
    have "p \<noteq> []" using that(3) not_isNetworkError_empty by auto
    then show ?thesis using that by (simp add: effects_since_def on_AI_LOAD_FAILED_effects)
  qed
  have b: "filter is_timer (effects_since s ?s) = []"
    if "\<not> isRunning s \<or> payload = None \<or> (payload = Some p \<and> \<not> isNetworkError p)"
    using that not_isNetworkError_empty by (auto simp: effects_since_def on_AI_LOAD_FAILED_effects)
  have c: "isRunning ?s = isRunning s" "\<not> aiReady ?s"
    "fst (on_AI_LOAD_FAILED env payload s) = \<lparr>success = True, error = None\<rparr>"
    by (simp_all add: on_AI_LOAD_FAILED_def Let_def)
  have d: "filter stops_curation (effects_since s ?s) = []"
    by (simp add: since on_AI_LOAD_FAILED_effects)
  have e: "on_retry_timer env s'
          = initializeAI env (emit (SendMessage (AI_LOAD_PROGRESS ''Retrying download...'' 5)) s')"
    if "isRunning s'" "\<not> aiReady s'"
    using that by (simp add: on_retry_timer_def)
  have ci: "cachedInterests ?s = cachedInterests s"
    by (simp add: on_AI_LOAD_FAILED_def Let_def)
  have f: "(\<exists>r. evaluate_classification P ev ?s tweet = Some r)
        \<and> (isModelReady ev \<and> classify_reply ev \<noteq> None
             \<or> evaluate_classification P ev ?s tweet
                 = Some (fallbackClassification P tweet (cachedInterests s)))"
    if "isRunning s"
    using that c(1) ci by (auto simp: evaluate_classification_def split: option.splits)
  show ?thesis using a b c d e f by blast
qed

theorem on_AI_LOAD_FAILED_retry_witness:
  "isRunning running_state
   \<and> isNetworkError ''Download timeout: Model download took too long''
   \<and> filter is_timer (effects_since running_state (snd (on_AI_LOAD_FAILED feed_env
        (Some ''Download timeout: Model download took too long'') running_state)))
       = [SetTimeout 15000 RetryInitializeAI]
   \<and> \<not> isNetworkError ''Server error: HTTP 503: Service Unavailable''
   \<and> filter is_timer (effects_since running_state (snd (on_AI_LOAD_FAILED feed_env
        (Some ''Server error: HTTP 503: Service Unavailable'') running_state))) = []
   \<and> isRunning (snd (on_AI_LOAD_FAILED feed_env
        (Some ''Server error: HTTP 503: Service Unavailable'') running_state))
   \<and> evaluate_classification sample_engine \<lparr>isModelReady = False, classify_reply = None\<rparr>
        (snd (on_AI_LOAD_FAILED feed_env
           (Some ''Server error: HTTP 503: Service Unavailable'') running_state))
        (JString (js ''What I had for breakfast''))
       = Some (fallbackClassification sample_engine (JString (js ''What I had for breakfast''))
           [js ''ai''])"
proof -
  have r: "isRunning running_state"
    by (simp add: running_state_def)
  have n1: "isNetworkError ''Download timeout: Model download took too long''"
    by (simp add: isNetworkError_def)
  have n2: "\<not> isNetworkError ''Server error: HTTP 503: Service Unavailable''"
    by (simp add: isNetworkError_def)
  have ci: "cachedInterests running_state = [js ''ai'']"
    by (simp add: running_state_def)
  show ?thesis
    using on_AI_LOAD_FAILED_retry [of running_state
        "Some ''Download timeout: Model download took too long''"
        "''Download timeout: Model download took too long''" feed_env running_state]
      on_AI_LOAD_FAILED_retry [of running_state
        "Some ''Server error: HTTP 503: Service Unavailable''"
        "''Server error: HTTP 503: Service Unavailable''" feed_env running_state
        sample_engine "\<lparr>isModelReady = False, classify_reply = None\<rparr>"
        "JString (js ''What I had for breakfast'')"]
      r n1 n2 ci
    by simp
qed

text \<open>
  C9, as the claim states it, fails: started on a tab that is not a feed, the
  \<open>START_CURATION\<close> branch answers \<open>{success: true}\<close>, the very answer it gives when
  curation does start; the caller receives no declined result.
\<close>

theorem on_START_CURATION_counterexample:
  "\<not> isRunning idle_state
   \<and> tabs_query other_site_env = Inr (Some \<lparr>tab_id = 7, tab_url = Some ''https://example.org/''\<rparr>)
   \<and> \<not> eligible_tab (Some \<lparr>tab_id = 7, tab_url = Some ''https://example.org/''\<rparr>)
   \<and> on_START_CURATION other_site_env idle_state = (\<lparr>success = True, error = None\<rparr>, idle_state)
   \<and> fst (on_START_CURATION feed_env idle_state) = \<lparr>success = True, error = None\<rparr>
   \<and> isRunning (snd (on_START_CURATION feed_env idle_state))"
  by (simp add: on_START_CURATION_def startCuration_def idle_state_def other_site_env_def
      feed_env_def eligible_tab_def Let_def startContentScript_def initializeAI_def
      setupOffscreenDocument_def)

text \<open>
  C9, amended.  \<open>startCuration\<close> is a no-op when the session is already running.  When
  it is invoked while the active tab is not an eligible feed tab (no tab, no URL, or
  a URL containing neither \<open>x.com\<close> nor \<open>twitter.com\<close>) it changes nothing: the
  running flag stays false, no alarm is created, nothing is sent or stored; it raises
  no error, and the \<open>START_CURATION\<close> branch answers \<open>{success: true}\<close>.
\<close>

theorem startCuration_declines:
  "(isRunning s \<longrightarrow> startCuration env s = (None, s))
   \<and> (\<not> isRunning s \<and> tabs_query env = Inr t \<and> \<not> eligible_tab t \<longrightarrow>
        startCuration env s = (None, s)
        \<and> on_START_CURATION env s = (\<lparr>success = True, error = None\<rparr>, s)
        \<and> \<not> isRunning (snd (on_START_CURATION env s))
        \<and> effects_since s (snd (on_START_CURATION env s)) = [])"
  by (simp add: startCuration_def on_START_CURATION_def effects_since_def)

theorem startCuration_declines_witness:
  "isRunning running_state
   \<and> startCuration feed_env running_state = (None, running_state)
   \<and> \<not> isRunning idle_state
   \<and> tabs_query other_site_env = Inr (Some \<lparr>tab_id = 7, tab_url = Some ''https://example.org/''\<rparr>)
   \<and> \<not> eligible_tab (Some \<lparr>tab_id = 7, tab_url = Some ''https://example.org/''\<rparr>)
   \<and> startCuration other_site_env idle_state = (None, idle_state)"
proof -
  have r: "isRunning running_state" and i: "\<not> isRunning idle_state"
    by (simp_all add: running_state_def idle_state_def)
  have q: "tabs_query other_site_env
      = Inr (Some \<lparr>tab_id = 7, tab_url = Some ''https://example.org/''\<rparr>)"
    by (simp add: other_site_env_def)
  have e: "\<not> eligible_tab (Some \<lparr>tab_id = 7, tab_url = Some ''https://example.org/''\<rparr>)"
    by (simp add: eligible_tab_def)
  show ?thesis
    using startCuration_declines [of running_state feed_env]
      startCuration_declines [of idle_state other_site_env
        "Some \<lparr>tab_id = 7, tab_url = Some ''https://example.org/''\<rparr>"]
      r i q e
    by simp
qed

section \<open>The interest cache\<close>

lemma recalcEmbeddings_unloaded: "classifier st = None \<Longrightarrow> recalcEmbeddings st is = st"
  by (simp add: recalcEmbeddings_def)

lemma on_SET_INTERESTS_unloaded:
  "classifier st = None \<Longrightarrow>
   interestEmbeddings (on_SET_INTERESTS st msg) = interestEmbeddings st
   \<and> classifier (on_SET_INTERESTS st msg) = None"
  by (simp add: on_SET_INTERESTS_def recalcEmbeddings_def Let_def)

lemma on_SET_INTERESTS_loaded:
  "classifier st = Some pipe \<Longrightarrow>
   interestEmbeddings (on_SET_INTERESTS st msg)
     = map (\<lambda>t. (t, pipe t)) (case msg_interests msg of None \<Rightarrow> [] | Some i \<Rightarrow> i)"
  by (simp add: on_SET_INTERESTS_def recalcEmbeddings_def Let_def)

lemma effects_since_interests_changed:
  "effects_since bg (on_interests_changed newValue bg) =
     (if aiReady bg
      then [SendMessage (SET_INTERESTS
              \<lparr>msg_interests = Some (case newValue of None \<Rightarrow> [] | Some i \<Rightarrow> i),
               msg_spamKeywords = None, msg_threshold = None\<rparr>)]
      else [])"
  by (simp add: on_interests_changed_def effects_since_def Let_def)

lemma effects_since_AI_READY:
  "effects_since bg (snd (on_AI_READY env bg)) =
     SendMessage (SET_INTERESTS
        \<lparr>msg_interests = Some (cachedInterests bg), msg_spamKeywords = Some spamKeywords,
         msg_threshold = Some SIM_THRESHOLD\<rparr>)
     # SendMessage (STATUS_UPDATE (isRunning bg) True Status_ready)
     # (if status_receiver env then [StorageSet_aiStatus Status_ready] else [])
     @ (if isRunning bg then [ForwardToContentScript START] else [])"
  by (simp add: on_AI_READY_def effects_since_def Let_def broadcastStatus_effects aiStatus_of_def
      startContentScript_def forwardToContentScript_def)

lemma deliver_interests_changed_unloaded:
  "classifier st = None \<Longrightarrow>
   interestEmbeddings (deliver (effects_since bg (on_interests_changed newValue bg)) st)
     = interestEmbeddings st
   \<and> classifier (deliver (effects_since bg (on_interests_changed newValue bg)) st) = None"
  by (simp add: effects_since_interests_changed on_SET_INTERESTS_unloaded)

lemma deliver_AI_READY_loaded:
  "classifier st = Some pipe \<Longrightarrow>
   interestEmbeddings (deliver (effects_since bg (snd (on_AI_READY env bg))) st)
     = map (\<lambda>t. (t, pipe t)) (cachedInterests bg)"
  by (simp add: effects_since_AI_READY on_SET_INTERESTS_loaded)

text \<open>
  C7.  A recompute while the provider is not loaded leaves the cached interest
  embeddings as they are.  The new interests stay in the background script's
  \<open>cachedInterests\<close>; when the provider becomes ready the \<open>AI_READY\<close> branch sends
  them again, and the offscreen document, now loaded, replaces its cache by their
  embeddings.  With the provider loaded, a recompute replaces the whole cache in one
  assignment by exactly one embedding per interest term, in order.
\<close>

theorem recalcEmbeddings_deferred:
  "(classifier st = None \<longrightarrow>
      recalcEmbeddings st new = st
      \<and> interestEmbeddings (on_SET_INTERESTS st msg) = interestEmbeddings st)
   \<and> (classifier st = None \<longrightarrow>
      interestEmbeddings
        (deliver (effects_since bg (on_interests_changed (Some new) bg)) st)
        = interestEmbeddings st
      \<and> interestEmbeddings
          (deliver
             (effects_since (on_interests_changed (Some new) bg)
                (snd (on_AI_READY env (on_interests_changed (Some new) bg))))
             (ensureModel_resolved pipe
                (deliver (effects_since bg (on_interests_changed (Some new) bg)) st)))
        = map (\<lambda>t. (t, pipe t)) new)
   \<and> (classifier st = Some pipe \<longrightarrow>
      interestEmbeddings (recalcEmbeddings st new) = map (\<lambda>t. (t, pipe t)) new
      \<and> map fst (interestEmbeddings (recalcEmbeddings st new)) = new
      \<and> length (interestEmbeddings (recalcEmbeddings st new)) = length new
      \<and> interestEmbeddings (on_SET_INTERESTS st msg)
          = map (\<lambda>t. (t, pipe t)) (case msg_interests msg of None \<Rightarrow> [] | Some i \<Rightarrow> i))"
proof -
  let ?bg1 = "on_interests_changed (Some new) bg"
  let ?st1 = "deliver (effects_since bg ?bg1) st"
  have frame: "recalcEmbeddings st new = st
      \<and> interestEmbeddings (on_SET_INTERESTS st msg) = interestEmbeddings st"
    if "classifier st = None"
    using that by (simp add: recalcEmbeddings_unloaded on_SET_INTERESTS_unloaded)
  have deferred: "interestEmbeddings ?st1 = interestEmbeddings st
      \<and> interestEmbeddings
          (deliver (effects_since ?bg1 (snd (on_AI_READY env ?bg1))) (ensureModel_resolved pipe ?st1))
        = map (\<lambda>t. (t, pipe t)) new"
    if n: "classifier st = None"
  proof -
    have c1: "classifier ?st1 = None" and e1: "interestEmbeddings ?st1 = interestEmbeddings st"
      using deliver_interests_changed_unloaded[OF n] by simp_all
    have "classifier (ensureModel_resolved pipe ?st1) = Some pipe"
      using c1 by (simp add: ensureModel_resolved_def)
    then have "interestEmbeddings
          (deliver (effects_since ?bg1 (snd (on_AI_READY env ?bg1))) (ensureModel_resolved pipe ?st1))
        = map (\<lambda>t. (t, pipe t)) (cachedInterests ?bg1)"
      by (rule deliver_AI_READY_loaded)
    moreover have "cachedInterests ?bg1 = new"
      by (simp add: on_interests_changed_def Let_def)
    ultimately show ?thesis using e1 by simp
  qed
  have loaded: "interestEmbeddings (recalcEmbeddings st new) = map (\<lambda>t. (t, pipe t)) new
      \<and> map fst (interestEmbeddings (recalcEmbeddings st new)) = new
      \<and> length (interestEmbeddings (recalcEmbeddings st new)) = length new
      \<and> interestEmbeddings (on_SET_INTERESTS st msg)
          = map (\<lambda>t. (t, pipe t)) (case msg_interests msg of None \<Rightarrow> [] | Some i \<Rightarrow> i)"
    if "classifier st = Some pipe"
    using that by (simp add: recalcEmbeddings_def on_SET_INTERESTS_loaded comp_def)
  show ?thesis using frame deferred loaded by blast
qed

theorem recalcEmbeddings_deferred_witness:
  "classifier (configured_unloaded [js ''ai'']) = None
   \<and> interestEmbeddings (on_SET_INTERESTS (configured_unloaded [js ''ai''])
        \<lparr>msg_interests = Some [js ''music''], msg_spamKeywords = None, msg_threshold = None\<rparr>) = []
   \<and> interestEmbeddings
        (deliver
           (effects_since (on_interests_changed (Some [js ''music'']) idle_state)
              (snd (on_AI_READY feed_env (on_interests_changed (Some [js ''music'']) idle_state))))
           (ensureModel_resolved toy_model
              (deliver (effects_since idle_state (on_interests_changed (Some [js ''music'']) idle_state))
                 (configured_unloaded [js ''ai'']))))
       = [(js ''music'', [0, 1])]
   \<and> classifier toy_loaded = Some toy_model
   \<and> interestEmbeddings (recalcEmbeddings toy_loaded [js ''ai'', js ''music''])
       = [(js ''ai'', [1, 0]), (js ''music'', [0, 1])]"
proof -
  have cu: "configured_unloaded [js ''ai''] =
      \<lparr>classifier = None, interestEmbeddings = [], spamList = spamKeywords, threshold = 35 / 100\<rparr>"
    by (simp add: configured_unloaded_def on_SET_INTERESTS_def recalcEmbeddings_def
        offscreen_init_def SIM_THRESHOLD_def)
  have n: "classifier (configured_unloaded [js ''ai'']) = None"
    and e0: "interestEmbeddings (configured_unloaded [js ''ai'']) = []"
    by (simp_all add: cu)
  have l: "classifier toy_loaded = Some toy_model"
    by (simp add: toy_loaded_def on_SET_INTERESTS_def recalcEmbeddings_def ensureModel_resolved_def
        offscreen_init_def)
  have m: "map (\<lambda>t. (t, toy_model t)) [js ''music''] = [(js ''music'', [0, 1])]"
    "map (\<lambda>t. (t, toy_model t)) [js ''ai'', js ''music''] = [(js ''ai'', [1, 0]), (js ''music'', [0, 1])]"
    by (simp_all add: toy_model_def lower_unit_def js_def)
  show ?thesis
    using recalcEmbeddings_deferred [of "configured_unloaded [js ''ai'']" "[js ''music'']"
        "\<lparr>msg_interests = Some [js ''music''], msg_spamKeywords = None, msg_threshold = None\<rparr>"
        idle_state feed_env toy_model]
      recalcEmbeddings_deferred [of toy_loaded "[js ''ai'', js ''music'']" _ _ _ toy_model]
      n e0 l m
    by simp
qed

end
